theory Spec2Isabelle
  imports Main
begin

section \<open>JavaScript values and string primitives\<close>

text \<open>
  The frontend handles values produced by \<open>JSON.parse\<close> and object literals. A value is
  \<open>undefined\<close>, \<open>null\<close>, a boolean, a number, a string, an array or an object. A
  number is held as the text that \<open>Number.prototype.toString\<close> prints for it (\<open>''0''\<close>,
  \<open>''1.5''\<close>, \<open>''1e+21''\<close>): the code only tests numbers for truthiness and prints them.
  An object is the list of its own properties, each key once. A string is the list of its
  code units.
\<close>

datatype jsv =
    JUndefined
  | JNull
  | JBool bool
  | JNum string
  | JStr string
  | JArr "jsv list"
  | JObj "(string \<times> jsv) list"

text \<open>Truthiness, as \<open>if (v)\<close> and \<open>v || d\<close> test it.\<close>

fun truthy :: "jsv \<Rightarrow> bool" where
  "truthy JUndefined = False"
| "truthy JNull = False"
| "truthy (JBool b) = b"
| "truthy (JNum t) = (t \<noteq> ''0'')"
| "truthy (JStr s) = (s \<noteq> [])"
| "truthy (JArr xs) = True"
| "truthy (JObj kvs) = True"

text \<open>Reading a property of \<open>undefined\<close> or \<open>null\<close> raises a TypeError.\<close>

fun nullish :: "jsv \<Rightarrow> bool" where
  "nullish JUndefined = True"
| "nullish JNull = True"
| "nullish v = False"

text \<open>
  \<open>v.k\<close> for a value that is not nullish, and \<open>k\<close> one of the keys the code reads
  (\<open>type\<close>, \<open>message\<close>, \<open>agent\<close>, \<open>final_answer\<close>, \<open>isStatus\<close>, \<open>content\<close>): an
  object gives the property or \<open>undefined\<close>, every other value has no such property.
\<close>

fun js_prop :: "jsv \<Rightarrow> string \<Rightarrow> jsv" where
  "js_prop (JObj kvs) k = (case map_of kvs k of Some v \<Rightarrow> v | None \<Rightarrow> JUndefined)"
| "js_prop v k = JUndefined"

fun join_strings :: "string \<Rightarrow> string list \<Rightarrow> string" where
  "join_strings sep [] = []"
| "join_strings sep [x] = x"
| "join_strings sep (x # y # ys) = x @ sep @ join_strings sep (y # ys)"

text \<open>
  The string conversion of a template literal, \<open>`${v}`\<close>, and of the elements of a
  \<open>join\<close>; \<open>None\<close> when it throws a TypeError. The values are those of \<open>JSON.parse\<close>
  and of object literals, so no property is a function: an object with an own property
  \<open>toString\<close> has no callable \<open>toString\<close>, its \<open>valueOf\<close> gives no primitive, and the
  conversion throws; every other object prints through \<open>Object.prototype.toString\<close>. An
  array prints as the join of its elements with commas.
\<close>

fun ToString :: "jsv \<Rightarrow> string option" where
  "ToString JUndefined = Some ''undefined''"
| "ToString JNull = Some ''null''"
| "ToString (JBool b) = Some (if b then ''true'' else ''false'')"
| "ToString (JNum t) = Some t"
| "ToString (JStr s) = Some s"
| "ToString (JArr xs) =
     map_option (join_strings '','')
       (those (map (\<lambda>x. if x = JNull \<or> x = JUndefined then Some [] else ToString x) xs))"
| "ToString (JObj kvs) =
     (if map_of kvs ''toString'' = None then Some ''[object Object]'' else None)"

text \<open>
  \<open>xs.join(sep)\<close>: \<open>undefined\<close> and \<open>null\<close> elements print as the empty string, every
  other element through its string conversion; \<open>None\<close> when one of them throws.
\<close>

definition join_js :: "string \<Rightarrow> jsv list \<Rightarrow> string option" where
  "join_js sep xs =
     map_option (join_strings sep)
       (those (map (\<lambda>x. if nullish x then Some [] else ToString x) xs))"

text \<open>\<open>s.split('\n')\<close>: the segments between newlines, empty ones included.\<close>

fun split_nl :: "string \<Rightarrow> string list" where
  "split_nl [] = [[]]"
| "split_nl (c # cs) =
     (if c = CHR 0x0A then [] # split_nl cs
      else (case split_nl cs of [] \<Rightarrow> [[c]] | l # ls \<Rightarrow> (c # l) # ls))"

text \<open>\<open>s.trim()\<close>: white space and line terminators among the code units below 256.\<close>

definition is_space :: "char \<Rightarrow> bool" where
  "is_space c = (c \<in> set [CHR 0x09, CHR 0x0A, CHR 0x0B, CHR 0x0C, CHR 0x0D, CHR 0x20, CHR 0xA0])"

definition trim :: "string \<Rightarrow> string" where
  "trim s = rev (dropWhile is_space (rev (dropWhile is_space s)))"

text \<open>\<open>s.replace(pat, rep)\<close> with a string pattern: the first occurrence only.\<close>

fun replace_first :: "string \<Rightarrow> string \<Rightarrow> string \<Rightarrow> string" where
  "replace_first pat rep [] = (if pat = [] then rep else [])"
| "replace_first pat rep (c # cs) =
     (if take (length pat) (c # cs) = pat then rep @ drop (length pat) (c # cs)
      else c # replace_first pat rep cs)"

text \<open>
  A callback or handler either returns or throws; both carry the state it leaves behind.
\<close>

datatype 'a outcome = Done 'a | Threw 'a

section \<open>utils/apiClient.js: fetchStreamWithErrorHandling\<close>

text \<open>
  The variables of one call: \<open>receivedData\<close>, \<open>finalResponse\<close> and \<open>statusUpdates\<close>.
  \<open>JSON.parse\<close> is the platform's: it is the parameter \<open>parse\<close>, \<open>None\<close> when it throws
  a SyntaxError. The three callbacks are parameters acting on the caller's state \<open>'u\<close>.
\<close>

record xhr_state =
  receivedData :: string
  finalResponse :: jsv
  statusUpdates :: "jsv list"

definition xhr_init :: xhr_state where
  "xhr_init = \<lparr>receivedData = [], finalResponse = JNull, statusUpdates = []\<rparr>"

datatype js_error = ApiError nat string | NetworkError | SetupError

text \<open>\<open>newData.split('\n').filter(line => line.trim())\<close>\<close>

definition nonblank_lines :: "string \<Rightarrow> string list" where
  "nonblank_lines s = filter (\<lambda>line. trim line \<noteq> []) (split_nl s)"

text \<open>The inner \<open>catch\<close> (lines 134-139): the line is taken as plain text.\<close>

definition catch_line ::
  "(jsv \<Rightarrow> bool \<Rightarrow> 'u \<Rightarrow> 'u outcome) \<Rightarrow> string \<Rightarrow> xhr_state \<Rightarrow> 'u \<Rightarrow> (xhr_state \<times> 'u) outcome" where
  "catch_line onChunk line x u =
     (let x' = x\<lparr>statusUpdates := statusUpdates x @ [JStr line]\<rparr> in
      case onChunk (JStr line) False u of
        Done u' \<Rightarrow> Done (x', u')
      | Threw u' \<Rightarrow> Threw (x', u'))"

text \<open>
  The body of the \<open>for\<close> loop (lines 104-139). An exception of the \<open>try\<close> block, whether of
  \<open>JSON.parse\<close>, of reading \<open>parsed.type\<close> on \<open>null\<close> or of the callback, enters the
  \<open>catch\<close> with the assignments made so far.
\<close>

definition process_line ::
  "(string \<Rightarrow> jsv option) \<Rightarrow> (jsv \<Rightarrow> bool \<Rightarrow> 'u \<Rightarrow> 'u outcome) \<Rightarrow> string \<Rightarrow> xhr_state \<Rightarrow> 'u
     \<Rightarrow> (xhr_state \<times> 'u) outcome" where
  "process_line parse onChunk line x u =
     (case parse line of
        None \<Rightarrow> catch_line onChunk line x u
      | Some parsed \<Rightarrow>
          if nullish parsed then catch_line onChunk line x u
          else if js_prop parsed ''type'' = JStr ''status'' then
            (let x' = x\<lparr>statusUpdates := statusUpdates x @ [js_prop parsed ''message'']\<rparr> in
             case onChunk (JObj [(''isStatus'', JBool True),
                                 (''message'', js_prop parsed ''message''),
                                 (''agent'', js_prop parsed ''agent'')]) True u of
               Done u' \<Rightarrow> Done (x', u')
             | Threw u' \<Rightarrow> catch_line onChunk line x' u')
          else if js_prop parsed ''type'' = JStr ''response'' then
            (let x' = x\<lparr>finalResponse := js_prop parsed ''final_answer''\<rparr> in
             case onChunk (finalResponse x') True u of
               Done u' \<Rightarrow> Done (x', u')
             | Threw u' \<Rightarrow> catch_line onChunk line x' u')
          else
            (case onChunk parsed True u of
               Done u' \<Rightarrow> Done (x, u')
             | Threw u' \<Rightarrow> catch_line onChunk line x u'))"

text \<open>The \<open>for\<close> loop: an exception that leaves the inner \<open>catch\<close> ends it.\<close>

fun for_lines ::
  "(string \<Rightarrow> jsv option) \<Rightarrow> (jsv \<Rightarrow> bool \<Rightarrow> 'u \<Rightarrow> 'u outcome) \<Rightarrow> string list \<Rightarrow> xhr_state \<Rightarrow> 'u
     \<Rightarrow> (xhr_state \<times> 'u) outcome" where
  "for_lines parse onChunk [] x u = Done (x, u)"
| "for_lines parse onChunk (line # lines) x u =
     (case process_line parse onChunk line x u of
        Done (x', u') \<Rightarrow> for_lines parse onChunk lines x' u'
      | Threw s \<Rightarrow> Threw s)"

text \<open>
  \<open>xhr.onprogress\<close> (lines 93-145), given the current \<open>xhr.responseText\<close>. The outer
  \<open>catch\<close> logs and swallows whatever the loop throws.
\<close>

definition onprogress ::
  "(string \<Rightarrow> jsv option) \<Rightarrow> (jsv \<Rightarrow> bool \<Rightarrow> 'u \<Rightarrow> 'u outcome) \<Rightarrow> string \<Rightarrow> xhr_state \<Rightarrow> 'u
     \<Rightarrow> xhr_state \<times> 'u" where
  "onprogress parse onChunk responseText x u =
     (let newData = drop (length (receivedData x)) responseText;
          x' = x\<lparr>receivedData := responseText\<rparr>
      in if newData \<noteq> [] then
           (case for_lines parse onChunk (nonblank_lines newData) x' u of
              Done s \<Rightarrow> s
            | Threw s \<Rightarrow> s)
         else (x', u))"

text \<open>
  \<open>xhr.onload\<close> (lines 148-170). In the \<open>try\<close> block both \<open>JSON.parse\<close> and the callback
  can throw; the \<open>catch\<close> then completes with the joined status messages. When the join
  itself throws there, the exception leaves the handler and no callback runs.
\<close>

definition onload ::
  "(string \<Rightarrow> jsv option) \<Rightarrow> (jsv \<Rightarrow> 'u \<Rightarrow> 'u outcome) \<Rightarrow> (js_error \<Rightarrow> 'u \<Rightarrow> 'u outcome)
     \<Rightarrow> nat \<Rightarrow> string \<Rightarrow> xhr_state \<Rightarrow> 'u \<Rightarrow> 'u outcome" where
  "onload parse onComplete onError status responseText x u =
     (if 200 \<le> status \<and> status < 300 then
        (if truthy (finalResponse x) then onComplete (finalResponse x) u
         else
           (let lines = nonblank_lines (receivedData x) in
            case (if length lines > 0 then
                    (case parse (last lines) of
                       None \<Rightarrow> Threw u
                     | Some parsed \<Rightarrow> onComplete parsed u)
                  else onComplete
                         (JObj [(''content'', JStr ''Received response but couldn't parse final result'')]) u) of
              Done u' \<Rightarrow> Done u'
            | Threw u' \<Rightarrow>
                (case join_js [CHR 0x0A] (statusUpdates x) of
                   None \<Rightarrow> Threw u'
                 | Some joined \<Rightarrow>
                     onComplete
                       (JObj [(''content'',
                          (if joined \<noteq> [] then JStr joined else JStr ''Request completed''))]) u')))
      else onError (ApiError status responseText) u)"

definition onerror :: "(js_error \<Rightarrow> 'u \<Rightarrow> 'u outcome) \<Rightarrow> 'u \<Rightarrow> 'u outcome" where
  "onerror onError u = onError NetworkError u"

text \<open>
  What the transport does with one request: the setup throws, or the body arrives in
  deliveries (one progress event each, \<open>xhr.responseText\<close> growing by the delivery) and the
  request ends with \<open>load\<close> under an HTTP status or with \<open>error\<close>.
\<close>

datatype terminal = Load nat | NetError

datatype transport = SetupThrows | Respond "string list" terminal

fun deliver ::
  "(string \<Rightarrow> jsv option) \<Rightarrow> (jsv \<Rightarrow> bool \<Rightarrow> 'u \<Rightarrow> 'u outcome) \<Rightarrow> string list \<Rightarrow> xhr_state \<Rightarrow> 'u
     \<Rightarrow> xhr_state \<times> 'u" where
  "deliver parse onChunk [] x u = (x, u)"
| "deliver parse onChunk (d # ds) x u =
     (case onprogress parse onChunk (receivedData x @ d) x u of
        (x', u') \<Rightarrow> deliver parse onChunk ds x' u')"

definition fetchStreamWithErrorHandling ::
  "(string \<Rightarrow> jsv option) \<Rightarrow> (jsv \<Rightarrow> bool \<Rightarrow> 'u \<Rightarrow> 'u outcome) \<Rightarrow> (jsv \<Rightarrow> 'u \<Rightarrow> 'u outcome)
     \<Rightarrow> (js_error \<Rightarrow> 'u \<Rightarrow> 'u outcome) \<Rightarrow> transport \<Rightarrow> 'u \<Rightarrow> 'u outcome" where
  "fetchStreamWithErrorHandling parse onChunk onComplete onError t u =
     (case t of
        SetupThrows \<Rightarrow> onError SetupError u
      | Respond ds fin \<Rightarrow>
          (case deliver parse onChunk ds xhr_init u of
             (x, u') \<Rightarrow>
               (case fin of
                  Load status \<Rightarrow> onload parse onComplete onError status (concat ds) x u'
                | NetError \<Rightarrow> onerror onError u')))"

text \<open>
  The arrays \<open>lines\<close> that the progress events compute (lines 96-101), one after another
  over all deliveries, from the cursor \<open>receivedData\<close>.
\<close>

fun emitted_lines :: "string \<Rightarrow> string list \<Rightarrow> string list" where
  "emitted_lines received [] = []"
| "emitted_lines received (d # ds) =
     (let newData = drop (length received) (received @ d)
      in (if newData \<noteq> [] then nonblank_lines newData else [])
         @ emitted_lines (received @ d) ds)"

section \<open>contexts/TopicContext.js: ChatProvider\<close>

text \<open>
  A status update is \<open>{agent, message}\<close>. A message of the list has the fields the code
  sets: an absent \<open>isTemp\<close>, \<open>isStatusHistory\<close> or \<open>isError\<close> reads as false, an absent
  \<open>statusUpdates\<close> is \<open>None\<close>. The \<open>timestamp\<close> (the clock's) is left out: nothing reads
  it. A placeholder's \<open>statusUpdates\<close> is the array of its \<open>sendMessage\<close> call itself, not
  a copy: the field holds the reference \<open>UpdatesOf conversationId\<close>, which names that array
  by the conversation id of the call; what the array holds is \<open>statusUpdates_c\<close> below.
\<close>

record status_update =
  agent :: jsv
  message :: jsv

datatype sender_t = User | System

datatype updates_ref = UpdatesOf string

record chat_message =
  msg_id :: string
  sender :: sender_t
  content :: jsv
  isTemp :: bool
  isStatusHistory :: bool
  isError :: bool
  msg_statusUpdates :: "updates_ref option"

text \<open>The state of the provider: \<open>messages\<close> and \<open>isTyping\<close>.\<close>

record chat =
  messages :: "chat_message list"
  isTyping :: bool

text \<open>
  What the callbacks of one \<open>sendMessage\<close> call act on: the provider's state and the
  call's own \<open>statusUpdates\<close> array.
\<close>

record send_scope = chat +
  statusUpdates_c :: "status_update list"

definition tempId :: "string \<Rightarrow> string" where
  "tempId conversationId = ''temp-'' @ conversationId"

definition statusId :: "string \<Rightarrow> string" where
  "statusId conversationId = ''status-'' @ conversationId"

definition systemId :: "string \<Rightarrow> string" where
  "systemId conversationId = ''system-'' @ conversationId"

definition userId :: "string \<Rightarrow> string" where
  "userId conversationId = ''user-'' @ conversationId"

definition welcomeMessage :: "string \<Rightarrow> chat_message" where
  "welcomeMessage now =
     \<lparr>msg_id = ''welcome-'' @ now, sender = System,
      content = JStr ''Welcome to Azure Cosmos DB Support. How can I help you today?'',
      isTemp = False, isStatusHistory = False, isError = False, msg_statusUpdates = None\<rparr>"

definition userMessage :: "string \<Rightarrow> string \<Rightarrow> chat_message" where
  "userMessage conversationId text_in =
     \<lparr>msg_id = userId conversationId, sender = User, content = JStr text_in,
      isTemp = False, isStatusHistory = False, isError = False, msg_statusUpdates = None\<rparr>"

text \<open>
  The element \<open>statusUpdates.map\<close> gives for one update (lines 160-165, 202-207); \<open>None\<close>
  when the template literal throws.
\<close>

definition formatStatus :: "status_update \<Rightarrow> jsv option" where
  "formatStatus update =
     (if truthy (agent update) then
        (case ToString (agent update) of
           None \<Rightarrow> None
         | Some a \<Rightarrow>
             (case ToString (message update) of
                None \<Rightarrow> None
              | Some m \<Rightarrow> Some (JStr (''**'' @ a @ ''**: '' @ m))))
      else Some (message update))"

text \<open>
  The placeholder built from the updates (lines 160-175, 202-217); \<open>None\<close> when the
  \<open>map\<close> or the \<open>join\<close> throws.
\<close>

definition tempMessage :: "string \<Rightarrow> status_update list \<Rightarrow> chat_message option" where
  "tempMessage conversationId updates =
     (case those (map formatStatus updates) of
        None \<Rightarrow> None
      | Some formattedStatusUpdates \<Rightarrow>
          (case join_js [CHR 0x0A, CHR 0x0A] formattedStatusUpdates of
             None \<Rightarrow> None
           | Some joined \<Rightarrow>
               Some \<lparr>msg_id = tempId conversationId, sender = System,
                     content = JStr (joined @ [CHR 0x0A, CHR 0x0A] @ ''*Processing...*''),
                     isTemp = True, isStatusHistory = False, isError = False,
                     msg_statusUpdates = Some (UpdatesOf conversationId)\<rparr>))"

text \<open>The updater passed to \<open>setMessages\<close> at lines 179-189 and 220-230.\<close>

definition putTemp :: "string \<Rightarrow> chat_message \<Rightarrow> chat_message list \<Rightarrow> chat_message list" where
  "putTemp tid tm prev =
     (if list_ex (\<lambda>m. msg_id m = tid) prev
      then map (\<lambda>m. if msg_id m = tid then tm else m) prev
      else prev @ [tm])"

text \<open>
  Both branches of the chunk callback that show a status do the same: push the update,
  build the placeholder from all updates, put it into the list. When building the
  placeholder throws, the update has been pushed and \<open>setMessages\<close> is not reached.
\<close>

definition showStatus :: "string \<Rightarrow> status_update \<Rightarrow> send_scope \<Rightarrow> send_scope outcome" where
  "showStatus conversationId update u =
     (let updates = statusUpdates_c u @ [update]
      in case tempMessage conversationId updates of
           None \<Rightarrow> Threw (u\<lparr>statusUpdates_c := updates\<rparr>)
         | Some tm \<Rightarrow>
             Done (u\<lparr>messages := putTemp (tempId conversationId) tm (messages u),
                     statusUpdates_c := updates\<rparr>))"

text \<open>
  The chunk callback (lines 138-232). Reading \<open>chunkData.isStatus\<close> throws on
  \<open>undefined\<close> and \<open>null\<close>, before any state is touched.
\<close>

definition onChunk :: "string \<Rightarrow> jsv \<Rightarrow> bool \<Rightarrow> send_scope \<Rightarrow> send_scope outcome" where
  "onChunk conversationId chunkData isJSON u =
     (if isJSON then
        (if nullish chunkData then Threw u
         else if truthy (js_prop chunkData ''isStatus'') then
           showStatus conversationId
             \<lparr>agent = js_prop chunkData ''agent'', message = js_prop chunkData ''message''\<rparr> u
         else Done u)
      else showStatus conversationId \<lparr>agent = JNull, message = chunkData\<rparr> u)"

definition finalMessage :: "string \<Rightarrow> jsv \<Rightarrow> chat_message" where
  "finalMessage conversationId finalData =
     \<lparr>msg_id = systemId conversationId, sender = System,
      content = (if truthy (js_prop finalData ''content'') then js_prop finalData ''content''
                 else JStr ''I've processed your request.''),
      isTemp = False, isStatusHistory = False, isError = False, msg_statusUpdates = None\<rparr>"

text \<open>
  \<open>m.content.replace('*Processing...*', '')\<close>; the content of a placeholder is a string.
\<close>

definition dropProcessing :: "jsv \<Rightarrow> jsv" where
  "dropProcessing c = (case c of JStr s \<Rightarrow> JStr (replace_first ''*Processing...*'' [] s) | _ \<Rightarrow> c)"

definition toStatusHistory :: "string \<Rightarrow> chat_message \<Rightarrow> chat_message" where
  "toStatusHistory conversationId m =
     m\<lparr>msg_id := statusId conversationId, isTemp := False, isStatusHistory := True,
       content := dropProcessing (content m)\<rparr>"

text \<open>The updater passed to \<open>setMessages\<close> at lines 244-274.\<close>

definition finalize :: "string \<Rightarrow> chat_message \<Rightarrow> chat_message list \<Rightarrow> chat_message list" where
  "finalize conversationId fm prev =
     (if list_ex (\<lambda>m. msg_id m = statusId conversationId \<and> isStatusHistory m) prev
      then filter (\<lambda>m. msg_id m \<noteq> tempId conversationId) prev @ [fm]
      else map (\<lambda>m. if msg_id m = tempId conversationId then toStatusHistory conversationId m else m) prev
           @ [fm])"

text \<open>
  The completion callback (lines 233-277). Reading \<open>finalData.content\<close> throws on
  \<open>undefined\<close> and \<open>null\<close>, before any state is touched.
\<close>

definition onComplete :: "string \<Rightarrow> jsv \<Rightarrow> send_scope \<Rightarrow> send_scope outcome" where
  "onComplete conversationId finalData u =
     (if nullish finalData then Threw u
      else Done (u\<lparr>messages := finalize conversationId (finalMessage conversationId finalData) (messages u),
                   isTyping := False\<rparr>))"

definition errorMessage :: "string \<Rightarrow> chat_message" where
  "errorMessage conversationId =
     \<lparr>msg_id = systemId conversationId, sender = System,
      content = JStr ''I'm sorry, there was an error processing your request. Please try again.'',
      isTemp = False, isStatusHistory = False, isError = True, msg_statusUpdates = None\<rparr>"

text \<open>The error callback (lines 278-297).\<close>

definition onError :: "string \<Rightarrow> js_error \<Rightarrow> send_scope \<Rightarrow> send_scope outcome" where
  "onError conversationId err u =
     Done (u\<lparr>messages := filter (\<lambda>m. msg_id m \<noteq> tempId conversationId) (messages u)
                          @ [errorMessage conversationId],
             isTyping := False\<rparr>)"

text \<open>
  One request of the provider, from the first progress event to the terminal callback:
  \<open>fetchStreamWithErrorHandling\<close> under the three callbacks of \<open>sendMessage\<close>, whose
  \<open>statusUpdates\<close> array starts empty. An exception that leaves a handler is reported by
  the browser and changes nothing more.
\<close>

definition state_of :: "'a outcome \<Rightarrow> 'a" where
  "state_of r = (case r of Done s \<Rightarrow> s | Threw s \<Rightarrow> s)"

definition open_scope :: "chat \<Rightarrow> send_scope" where
  "open_scope c = \<lparr>messages = messages c, isTyping = isTyping c, statusUpdates_c = []\<rparr>"

definition stream_request :: "(string \<Rightarrow> jsv option) \<Rightarrow> string \<Rightarrow> transport \<Rightarrow> chat \<Rightarrow> send_scope" where
  "stream_request parse conversationId t c =
     state_of (fetchStreamWithErrorHandling parse (onChunk conversationId) (onComplete conversationId)
                 (onError conversationId) t (open_scope c))"

text \<open>
  \<open>sendMessage\<close> (lines 111-319) up to the call of \<open>sendChatMessageStreamed\<close>: blank
  input does nothing; otherwise the user's message is appended, \<open>isTyping\<close> is set and the
  request goes out with the settings as options. \<open>now\<close> is \<open>Date.now().toString()\<close>.
  When the call throws (\<open>setupOk\<close> false), the \<open>catch\<close> appends its own error message.
\<close>

record settings_t =
  includeDebateDetails :: bool
  maxIterations :: nat
  darkMode :: bool

record request =
  req_conversationId :: string
  question :: string
  opt_includeDebateDetails :: bool
  opt_maxIterations :: nat

definition connectMessage :: "string \<Rightarrow> chat_message" where
  "connectMessage conversationId =
     \<lparr>msg_id = systemId conversationId, sender = System,
      content = JStr ''There was a problem connecting to the server. Please check your connection and try again.'',
      isTemp = False, isStatusHistory = False, isError = True, msg_statusUpdates = None\<rparr>"

definition sendMessage ::
  "bool \<Rightarrow> string \<Rightarrow> settings_t \<Rightarrow> string \<Rightarrow> chat \<Rightarrow> chat \<times> request option" where
  "sendMessage setupOk now st content_in c =
     (if trim content_in = [] then (c, None)
      else
        (let c' = c\<lparr>messages := messages c @ [userMessage now content_in], isTyping := True\<rparr>
         in if setupOk then
              (c', Some \<lparr>req_conversationId = now, question = content_in,
                         opt_includeDebateDetails = includeDebateDetails st,
                         opt_maxIterations = maxIterations st\<rparr>)
            else (c'\<lparr>messages := messages c' @ [connectMessage now], isTyping := False\<rparr>, None)))"

section \<open>components/MessageList.js\<close>

text \<open>The messages the list renders (lines 188-192).\<close>

definition finalMessages :: "settings_t \<Rightarrow> chat_message list \<Rightarrow> chat_message list" where
  "finalMessages st ms = filter (\<lambda>m. \<not> isStatusHistory m \<or> includeDebateDetails st) ms"

section \<open>components/MainChat.js\<close>

text \<open>
  The state the form reads: the text typed (\<open>message\<close>), the selected topic, the
  settings and the provider's state; \<open>outstanding\<close> holds the requests sent whose terminal
  callback has not run.
\<close>

record main_chat =
  message_input :: string
  selectedTopic :: "string option"
  settings :: settings_t
  provider :: chat
  outstanding :: "request list"

definition setMessage :: "string \<Rightarrow> main_chat \<Rightarrow> main_chat" where
  "setMessage typed s = s\<lparr>message_input := typed\<rparr>"

text \<open>The text field has \<open>disabled={false}\<close>, the send button \<open>disabled={!message.trim()}\<close>.\<close>

definition input_disabled :: "main_chat \<Rightarrow> bool" where
  "input_disabled s = False"

definition send_disabled :: "main_chat \<Rightarrow> bool" where
  "send_disabled s = (trim (message_input s) = [])"

text \<open>\<open>handleSend\<close> (lines 37-49), run by the form's submit and by the Enter key.\<close>

definition handleSend :: "bool \<Rightarrow> string \<Rightarrow> main_chat \<Rightarrow> main_chat" where
  "handleSend setupOk now s =
     (if trim (message_input s) \<noteq> [] then
        (let topic = (if selectedTopic s = None then Some ''general'' else selectedTopic s)
         in case sendMessage setupOk now (settings s) (message_input s) (provider s) of
              (c, r) \<Rightarrow>
                s\<lparr>message_input := [], selectedTopic := topic, provider := c,
                  outstanding := outstanding s @ (case r of None \<Rightarrow> [] | Some q \<Rightarrow> [q])\<rparr>)
      else s)"

text \<open>
  The transport answers the outstanding request \<open>cid\<close>, its progress events and its
  terminal event taken together: the callbacks run on the provider's state and the request
  is no longer outstanding. (In the browser the events of several requests can interleave;
  what is proved of the handlers below holds from every state.)
\<close>

definition settle :: "(string \<Rightarrow> jsv option) \<Rightarrow> string \<Rightarrow> transport \<Rightarrow> main_chat \<Rightarrow> main_chat" where
  "settle parse cid t s =
     s\<lparr>provider := chat.truncate (stream_request parse cid t (provider s)),
       outstanding := filter (\<lambda>q. req_conversationId q \<noteq> cid) (outstanding s)\<rparr>"

definition main_chat_init :: "settings_t \<Rightarrow> string \<Rightarrow> main_chat" where
  "main_chat_init st now =
     \<lparr>message_input = [], selectedTopic = None, settings = st,
      provider = \<lparr>messages = [welcomeMessage now], isTyping = False\<rparr>, outstanding = []\<rparr>"

section \<open>Sample wire texts\<close>

text \<open>
  \<open>JSON.parse\<close> on the texts the examples below send: on \<open>null\<close>, on six envelopes,
  and on \<open>garbage\<close>, \<open>ab\<close>, \<open>c\<close>, \<open>abc\<close>, which are not JSON.
\<close>

definition status_m1 :: string where
  \<open>status_m1 = ''{"type":"status","message":"m1"}''\<close>

definition status_m2 :: string where
  \<open>status_m2 = ''{"type":"status","agent":"Critic","message":"m2"}''\<close>

definition status_bad :: string where
  \<open>status_bad = ''{"type":"status","message":{"toString":1}}''\<close>

definition response_X :: string where
  \<open>response_X = ''{"type":"response","final_answer":{"content":"X"}}''\<close>

definition response_false :: string where
  \<open>response_false = ''{"type":"response","final_answer":false}''\<close>

definition response_flagged :: string where
  \<open>response_flagged = ''{"type":"response","final_answer":{"isStatus":true,"message":"hi"}}''\<close>

definition json_sample :: "string \<Rightarrow> jsv option" where
  "json_sample = map_of
     [(''null'', JNull),
      (status_bad,
         JObj [(''type'', JStr ''status''), (''message'', JObj [(''toString'', JNum ''1'')])]),
      (status_m1, JObj [(''type'', JStr ''status''), (''message'', JStr ''m1'')]),
      (status_m2, JObj [(''type'', JStr ''status''), (''agent'', JStr ''Critic''), (''message'', JStr ''m2'')]),
      (response_X, JObj [(''type'', JStr ''response''), (''final_answer'', JObj [(''content'', JStr ''X'')])]),
      (response_false, JObj [(''type'', JStr ''response''), (''final_answer'', JBool False)]),
      (response_flagged,
         JObj [(''type'', JStr ''response''),
               (''final_answer'', JObj [(''isStatus'', JBool True), (''message'', JStr ''hi'')])])]"

definition settings_off :: settings_t where
  "settings_off = \<lparr>includeDebateDetails = False, maxIterations = 10, darkMode = False\<rparr>"

definition chat_empty :: chat where
  "chat_empty = \<lparr>messages = [], isTyping = True\<rparr>"

text \<open>
  Callbacks that only record the result handed to the completion callback.
\<close>

definition note_chunk :: "jsv \<Rightarrow> bool \<Rightarrow> jsv list \<Rightarrow> jsv list outcome" where
  "note_chunk v isJSON results = Done results"

definition note_result :: "jsv \<Rightarrow> jsv list \<Rightarrow> jsv list outcome" where
  "note_result v results = Done (results @ [v])"

definition note_error :: "js_error \<Rightarrow> jsv list \<Rightarrow> jsv list outcome" where
  "note_error e results = Done results"

text \<open>
  A session with debate details switched off: the user sends \<open>hi\<close>; then the request is
  answered with one status line and a response.
\<close>

definition session_asked :: main_chat where
  "session_asked = handleSend True ''1'' (setMessage ''hi'' (main_chat_init settings_off ''0''))"

definition session_answered :: main_chat where
  "session_answered =
     settle json_sample ''1'' (Respond [status_m1 @ [CHR 0x0A], response_X @ [CHR 0x0A]] (Load 200))
       session_asked"

section \<open>Notions used in the proofs\<close>

text \<open>A value whose string conversion does not throw.\<close>

definition printable :: "jsv \<Rightarrow> bool" where
  "printable v = (ToString v \<noteq> None)"

text \<open>
  \<open>shown_from cid u u'\<close>: from \<open>u\<close>, chunk callbacks of the request \<open>cid\<close> lead to \<open>u'\<close>.
  They leave \<open>isTyping\<close> alone, and the list is the one of \<open>u\<close>, or that list with a
  message of the request's temporary id put into it.
\<close>

definition shown_from :: "string \<Rightarrow> send_scope \<Rightarrow> send_scope \<Rightarrow> bool" where
  "shown_from cid u u' =
     (isTyping u' = isTyping u \<and>
      (messages u' = messages u \<or>
       (\<exists>tm. msg_id tm = tempId cid \<and> messages u' = putTemp (tempId cid) tm (messages u))))"

text \<open>The number of messages that carry the temporary id of the request \<open>cid\<close>.\<close>

definition placeholders :: "string \<Rightarrow> chat_message list \<Rightarrow> nat" where
  "placeholders cid ms = length (filter (\<lambda>m. msg_id m = tempId cid) ms)"

text \<open>A scope in which one plain-text status has been shown, and the placeholder it shows.\<close>

definition scope_shown :: send_scope where
  "scope_shown =
     state_of (showStatus ''1'' \<lparr>agent = JNull, message = JStr ''hello''\<rparr> (open_scope chat_empty))"

definition placeholder_hello :: chat_message where
  "placeholder_hello =
     \<lparr>msg_id = ''temp-1'', sender = System,
      content = JStr (''hello'' @ [CHR 0x0A, CHR 0x0A] @ ''*Processing...*''),
      isTemp = True, isStatusHistory = False, isError = False,
      msg_statusUpdates = Some (UpdatesOf ''1'')\<rparr>"

section \<open>The line parser\<close>

lemma split_nl_nonempty: "split_nl s \<noteq> []"
  by (induction s) (auto split: list.splits)

lemma split_nl_append: "split_nl (a @ CHR 0x0A # b) = split_nl a @ split_nl b"
proof (induction a)
  case Nil
  show ?case by simp
next
  case (Cons c cs)
  obtain l ls where sp: "split_nl cs = l # ls"
    using split_nl_nonempty [of cs] by (cases "split_nl cs") auto
  show ?case using Cons sp by simp
qed

lemma nonblank_lines_Nil: "nonblank_lines [] = []"
  by (simp add: nonblank_lines_def trim_def)

lemma nonblank_lines_append: "nonblank_lines (a @ CHR 0x0A # b) = nonblank_lines a @ nonblank_lines b"
  by (simp add: nonblank_lines_def split_nl_append)

lemma nonblank_lines_aligned:
  assumes "d = [] \<or> last d = CHR 0x0A"
  shows "nonblank_lines (d @ b) = nonblank_lines d @ nonblank_lines b"
proof (cases "d = []")
  case True
  then show ?thesis by (simp add: nonblank_lines_Nil)
next
  case False
  with assms have "d = butlast d @ [CHR 0x0A]"
    by (metis append_butlast_last_id)
  then obtain a where d: "d = a @ [CHR 0x0A]" ..
  have "nonblank_lines (d @ b) = nonblank_lines a @ nonblank_lines b"
    using nonblank_lines_append [of a b] by (simp add: d)
  moreover have "nonblank_lines d = nonblank_lines a"
    using nonblank_lines_append [of a "[]"] by (simp add: d nonblank_lines_Nil)
  ultimately show ?thesis by simp
qed

lemma emitted_lines_concat: "emitted_lines received ds = concat (map nonblank_lines ds)"
  by (induction ds arbitrary: received) (auto simp: nonblank_lines_Nil Let_def)

lemma aligned_concat:
  "\<forall>d \<in> set (butlast ds). d = [] \<or> last d = CHR 0x0A \<Longrightarrow>
     nonblank_lines (concat ds) = concat (map nonblank_lines ds)"
proof (induction ds)
  case Nil
  show ?case by (simp add: nonblank_lines_Nil)
next
  case (Cons d ds)
  show ?case
  proof (cases "ds = []")
    case True
    then show ?thesis by simp
  next
    case False
    with Cons.prems have d: "d = [] \<or> last d = CHR 0x0A"
      and rest: "\<forall>d \<in> set (butlast ds). d = [] \<or> last d = CHR 0x0A"
      by auto
    show ?thesis
      using nonblank_lines_aligned [OF d, of "concat ds"] Cons.IH [OF rest] by simp
  qed
qed

lemma split_nl_clean: "CHR 0x0A \<notin> set l \<Longrightarrow> split_nl l = [l]"
  by (induction l) auto


lemma nonblank_lines_clean:
  "CHR 0x0A \<notin> set l \<Longrightarrow> trim l \<noteq> [] \<Longrightarrow> nonblank_lines (l @ CHR 0x0A # rest) = l # nonblank_lines rest"
  by (simp add: nonblank_lines_append) (simp add: nonblank_lines_def split_nl_clean)

section \<open>String conversion and the placeholder\<close>

lemma those_map_ex:
  "(\<And>x. x \<in> set xs \<Longrightarrow> \<exists>y. f x = Some y \<and> P y) \<Longrightarrow>
     \<exists>ys. those (map f xs) = Some ys \<and> (\<forall>y \<in> set ys. P y)"
proof (induction xs)
  case Nil
  show ?case by simp
next
  case (Cons a xs)
  obtain y where y: "f a = Some y" "P y"
    using Cons.prems [of a] by auto
  obtain ys where ys: "those (map f xs) = Some ys" "\<forall>y \<in> set ys. P y"
    using Cons.IH Cons.prems by auto
  show ?case using y ys by simp
qed



lemma join_js_printable:
  assumes "\<forall>y \<in> set ys. printable y"
  shows "\<exists>j. join_js sep ys = Some j"
proof -
  have "\<exists>zs. those (map (\<lambda>x. if nullish x then Some [] else ToString x) ys) = Some zs
      \<and> (\<forall>z \<in> set zs. True)"
    using assms by (intro those_map_ex) (auto simp: printable_def)
  then show ?thesis by (auto simp: join_js_def)
qed

lemma formatStatus_printable:
  assumes "printable (agent su)" "printable (message su)"
  shows "\<exists>f. formatStatus su = Some f \<and> printable f"
  using assms by (auto simp: formatStatus_def printable_def)

lemma tempMessage_printable:
  assumes "\<forall>su \<in> set ups. printable (agent su) \<and> printable (message su)"
  shows "\<exists>tm. tempMessage cid ups = Some tm"
proof -
  obtain fs where fs: "those (map formatStatus ups) = Some fs" "\<forall>f \<in> set fs. printable f"
    using those_map_ex [of ups formatStatus printable] assms formatStatus_printable by blast
  obtain j where "join_js [CHR 0x0A, CHR 0x0A] fs = Some j"
    using join_js_printable [OF fs(2)] by blast
  then show ?thesis using fs(1) by (simp add: tempMessage_def)
qed

lemma tempMessage_id: "tempMessage cid ups = Some tm \<Longrightarrow> msg_id tm = tempId cid"
  by (auto simp: tempMessage_def split: option.splits)

lemma putTemp_putTemp:
  assumes "msg_id tm1 = tid" "msg_id tm2 = tid"
  shows "putTemp tid tm2 (putTemp tid tm1 prev) = putTemp tid tm2 prev"
proof (cases "list_ex (\<lambda>m. msg_id m = tid) prev")
  case True
  then have "list_ex (\<lambda>m. msg_id m = tid) (map (\<lambda>m. if msg_id m = tid then tm1 else m) prev)"
    using assms by (auto simp: list_ex_iff)
  then show ?thesis using True assms by (simp add: putTemp_def comp_def cong: map_cong)
next
  case False
  then have "map (\<lambda>m. if msg_id m = tid then tm2 else m) prev = prev"
    by (induction prev) auto
  then show ?thesis using False assms by (simp add: putTemp_def)
qed

lemma putTemp_others:
  assumes "msg_id tm = tid"
  shows "filter (\<lambda>m. msg_id m \<noteq> tid) (putTemp tid tm prev) = filter (\<lambda>m. msg_id m \<noteq> tid) prev"
proof -
  have "filter (\<lambda>m. msg_id m \<noteq> tid) (map (\<lambda>m. if msg_id m = tid then tm else m) prev)
        = filter (\<lambda>m. msg_id m \<noteq> tid) prev"
    using assms by (induction prev) auto
  then show ?thesis using assms by (simp add: putTemp_def)
qed

lemma putTemp_count:
  assumes "msg_id tm = tid"
  shows "length (filter (\<lambda>m. msg_id m = tid) (putTemp tid tm prev)) =
         (if list_ex (\<lambda>m. msg_id m = tid) prev then length (filter (\<lambda>m. msg_id m = tid) prev) else 1)"
proof (cases "list_ex (\<lambda>m. msg_id m = tid) prev")
  case True
  have "length (filter (\<lambda>m. msg_id m = tid) (map (\<lambda>m. if msg_id m = tid then tm else m) prev))
        = length (filter (\<lambda>m. msg_id m = tid) prev)"
    using assms by (induction prev) auto
  then show ?thesis using True by (simp add: putTemp_def)
next
  case False
  then have "filter (\<lambda>m. msg_id m = tid) prev = []"
    by (auto simp: list_ex_iff filter_empty_conv)
  then show ?thesis using False assms by (simp add: putTemp_def)
qed

lemma putTemp_length:
  "list_ex (\<lambda>m. msg_id m = tid) prev \<Longrightarrow> length (putTemp tid tm prev) = length prev"
  by (simp add: putTemp_def)

section \<open>The list under the chunk callback\<close>

lemma shown_from_refl: "shown_from cid u u"
  by (simp add: shown_from_def)

lemma shown_from_same:
  "shown_from cid u0 u \<Longrightarrow> isTyping u' = isTyping u \<Longrightarrow> messages u' = messages u \<Longrightarrow>
     shown_from cid u0 u'"
  by (simp add: shown_from_def)

lemma shown_from_put:
  assumes "shown_from cid u0 u" and "msg_id tm = tempId cid"
    and "isTyping u' = isTyping u" and "messages u' = putTemp (tempId cid) tm (messages u)"
  shows "shown_from cid u0 u'"
proof -
  from assms(1) have "messages u = messages u0 \<or>
      (\<exists>t. msg_id t = tempId cid \<and> messages u = putTemp (tempId cid) t (messages u0))"
    by (simp add: shown_from_def)
  then have "messages u' = putTemp (tempId cid) tm (messages u0)"
  proof
    assume "messages u = messages u0"
    then show ?thesis by (simp add: assms(4))
  next
    assume "\<exists>t. msg_id t = tempId cid \<and> messages u = putTemp (tempId cid) t (messages u0)"
    then obtain t where "msg_id t = tempId cid" "messages u = putTemp (tempId cid) t (messages u0)"
      by blast
    then show ?thesis
      using putTemp_putTemp [OF _ assms(2)] by (simp add: assms(4))
  qed
  then show ?thesis
    using assms by (auto simp: shown_from_def)
qed

lemma showStatus_Done:
  "tempMessage cid (statusUpdates_c u @ [su]) = Some tm \<Longrightarrow>
     showStatus cid su u =
       Done (u\<lparr>messages := putTemp (tempId cid) tm (messages u),
               statusUpdates_c := statusUpdates_c u @ [su]\<rparr>)"
  by (simp add: showStatus_def Let_def)

lemma showStatus_Threw:
  "tempMessage cid (statusUpdates_c u @ [su]) = None \<Longrightarrow>
     showStatus cid su u = Threw (u\<lparr>statusUpdates_c := statusUpdates_c u @ [su]\<rparr>)"
  by (simp add: showStatus_def Let_def)

lemma showStatus_shown:
  assumes "shown_from cid u0 u"
  shows "shown_from cid u0 (state_of (showStatus cid su u))"
proof (cases "tempMessage cid (statusUpdates_c u @ [su])")
  case None
  show ?thesis
    by (rule shown_from_same [OF assms]) (simp_all add: showStatus_Threw [OF None] state_of_def)
next
  case (Some tm)
  show ?thesis
    by (rule shown_from_put [OF assms tempMessage_id [OF Some]])
      (simp_all add: showStatus_Done [OF Some] state_of_def)
qed

lemma onChunk_cases:
  "onChunk cid v j u = Threw u \<or> onChunk cid v j u = Done u \<or>
   (\<exists>su. onChunk cid v j u = showStatus cid su u)"
  by (auto simp: onChunk_def)

lemma onChunk_shown:
  assumes "shown_from cid u0 u"
  shows "shown_from cid u0 (state_of (onChunk cid v j u))"
  using onChunk_cases [of cid v j u] assms showStatus_shown [OF assms]
  by (auto simp: state_of_def)

lemma catch_line_state:
  "snd (state_of (catch_line cb line x u)) = state_of (cb (JStr line) False u)"
  by (simp add: catch_line_def state_of_def Let_def split: outcome.splits)

lemma catch_line_shown:
  assumes "shown_from cid u0 u"
  shows "shown_from cid u0 (snd (state_of (catch_line (onChunk cid) line x u)))"
  unfolding catch_line_state by (rule onChunk_shown [OF assms])

lemma try_chunk_shown:
  assumes "shown_from cid u0 u"
  shows "shown_from cid u0 (snd (state_of
     (case onChunk cid v True u of
        Done u' \<Rightarrow> Done (x', u')
      | Threw u' \<Rightarrow> catch_line (onChunk cid) line x'' u')))"
proof (cases "onChunk cid v True u")
  case (Done u1)
  then show ?thesis
    using onChunk_shown [OF assms, of v True] by (simp add: state_of_def)
next
  case (Threw u1)
  then have "shown_from cid u0 u1"
    using onChunk_shown [OF assms, of v True] by (simp add: state_of_def)
  from catch_line_shown [OF this] Threw show ?thesis by simp
qed

lemma process_line_shown:
  assumes "shown_from cid u0 u"
  shows "shown_from cid u0 (snd (state_of (process_line parse (onChunk cid) line x u)))"
  unfolding process_line_def Let_def
  using catch_line_shown [OF assms] try_chunk_shown [OF assms]
  by (simp split: option.splits)

lemma for_lines_shown:
  "shown_from cid u0 u \<Longrightarrow>
     shown_from cid u0 (snd (state_of (for_lines parse (onChunk cid) ls x u)))"
proof (induction ls arbitrary: x u)
  case Nil
  then show ?case by (simp add: state_of_def)
next
  case (Cons l ls)
  show ?case
  proof (cases "process_line parse (onChunk cid) l x u")
    case (Done s)
    obtain x1 u1 where s: "s = (x1, u1)" by (cases s)
    have "shown_from cid u0 u1"
      using process_line_shown [OF Cons.prems, of parse l x] Done s by (simp add: state_of_def)
    from Cons.IH [OF this, of x1] show ?thesis using Done s by simp
  next
    case (Threw s)
    then show ?thesis
      using process_line_shown [OF Cons.prems, of parse l x] by (simp add: state_of_def)
  qed
qed

lemma onprogress_shown:
  assumes "shown_from cid u0 u"
  shows "shown_from cid u0 (snd (onprogress parse (onChunk cid) rt x u))"
  using for_lines_shown [OF assms, of parse
      "nonblank_lines (drop (length (receivedData x)) rt)" "x\<lparr>receivedData := rt\<rparr>"] assms
  by (simp add: onprogress_def Let_def state_of_def split: outcome.splits)

lemma deliver_shown:
  "shown_from cid u0 u \<Longrightarrow> shown_from cid u0 (snd (deliver parse (onChunk cid) ds x u))"
proof (induction ds arbitrary: x u)
  case Nil
  then show ?case by simp
next
  case (Cons d ds)
  obtain x1 u1 where p: "onprogress parse (onChunk cid) (receivedData x @ d) x u = (x1, u1)"
    by (cases "onprogress parse (onChunk cid) (receivedData x @ d) x u")
  have "shown_from cid u0 u1"
    using onprogress_shown [OF Cons.prems, of parse "receivedData x @ d" x] p by simp
  from Cons.IH [OF this, of x1] show ?case using p by simp
qed

lemma shown_from_others:
  assumes "shown_from cid u u'"
  shows "filter (\<lambda>m. msg_id m \<noteq> tempId cid) (messages u') = filter (\<lambda>m. msg_id m \<noteq> tempId cid) (messages u)"
  using assms putTemp_others by (auto simp: shown_from_def)

lemma shown_from_count:
  assumes "shown_from cid u u'"
    and "length (filter (\<lambda>m. msg_id m = tempId cid) (messages u)) \<le> 1"
  shows "length (filter (\<lambda>m. msg_id m = tempId cid) (messages u')) \<le> 1"
  using assms putTemp_count [of _ "tempId cid" "messages u"]
  by (auto simp: shown_from_def split: if_splits)

lemma shown_from_length:
  assumes "shown_from cid u u'"
    and "list_ex (\<lambda>m. msg_id m = tempId cid) (messages u)"
  shows "length (messages u') = length (messages u)"
  using assms putTemp_length by (auto simp: shown_from_def)

section \<open>The loop over the lines and the deliveries\<close>

lemma process_line_received:
  "process_line parse cb line (x\<lparr>receivedData := r\<rparr>) u =
     (case process_line parse cb line x u of
        Done (x', u') \<Rightarrow> Done (x'\<lparr>receivedData := r\<rparr>, u')
      | Threw (x', u') \<Rightarrow> Threw (x'\<lparr>receivedData := r\<rparr>, u'))"
  by (simp add: process_line_def catch_line_def Let_def split: option.splits outcome.splits)

lemma for_lines_received:
  "for_lines parse cb ls (x\<lparr>receivedData := r\<rparr>) u =
     (case for_lines parse cb ls x u of
        Done (x', u') \<Rightarrow> Done (x'\<lparr>receivedData := r\<rparr>, u')
      | Threw (x', u') \<Rightarrow> Threw (x'\<lparr>receivedData := r\<rparr>, u'))"
proof (induction ls arbitrary: x u)
  case Nil
  show ?case by simp
next
  case (Cons l ls)
  show ?case
    by (simp add: process_line_received Cons.IH split: outcome.splits prod.splits)
qed

lemma for_lines_append:
  "for_lines parse cb (as @ bs) x u =
     (case for_lines parse cb as x u of
        Done (x', u') \<Rightarrow> for_lines parse cb bs x' u'
      | Threw s \<Rightarrow> Threw s)"
  by (induction as arbitrary: x u) (auto split: outcome.splits)

lemma onprogress_lines:
  assumes "for_lines parse cb (nonblank_lines d) x u = Done (x', u')"
  shows "onprogress parse cb (receivedData x @ d) x u = (x'\<lparr>receivedData := receivedData x @ d\<rparr>, u')"
proof (cases "d = []")
  case True
  with assms show ?thesis by (simp add: onprogress_def nonblank_lines_Nil)
next
  case False
  then show ?thesis
    using assms by (simp add: onprogress_def Let_def for_lines_received)
qed

lemma deliver_emitted:
  "for_lines parse cb (emitted_lines (receivedData x) ds) x u = Done (x', u') \<Longrightarrow>
     deliver parse cb ds x u = (x'\<lparr>receivedData := receivedData x @ concat ds\<rparr>, u')"
proof (induction ds arbitrary: x u x')
  case Nil
  then show ?case by simp
next
  case (Cons d ds)
  have el: "emitted_lines (receivedData x) (d # ds)
      = nonblank_lines d @ emitted_lines (receivedData x @ d) ds"
    by (simp add: nonblank_lines_Nil)
  from Cons.prems obtain x1 u1 where
    one: "for_lines parse cb (nonblank_lines d) x u = Done (x1, u1)"
    and rest: "for_lines parse cb (emitted_lines (receivedData x @ d) ds) x1 u1 = Done (x', u')"
    unfolding el for_lines_append by (auto split: outcome.splits)
  let ?x1 = "x1\<lparr>receivedData := receivedData x @ d\<rparr>"
  have "for_lines parse cb (emitted_lines (receivedData ?x1) ds) ?x1 u1
      = Done (x'\<lparr>receivedData := receivedData x @ d\<rparr>, u')"
    using rest by (simp add: for_lines_received)
  from Cons.IH [OF this] onprogress_lines [OF one] show ?case by simp
qed

section \<open>The placeholder under every handler\<close>

lemma ids_differ: "systemId cid \<noteq> tempId cid"
  by (simp add: systemId_def tempId_def)

lemma onload_not_ok:
  "\<not> (200 \<le> status \<and> status < 300) \<Longrightarrow>
     onload parse oc oe status body x u = oe (ApiError status body) u"
  unfolding onload_def by (rule if_not_P)

lemma other_ids:
  "systemId a \<noteq> tempId b" "statusId a \<noteq> tempId b" "userId a \<noteq> tempId b"
  "''welcome-'' @ a \<noteq> tempId b"
  by (simp_all add: systemId_def statusId_def userId_def tempId_def)

lemma putTemp_count_le:
  assumes "msg_id tm = tid'" and "length (filter (\<lambda>m. msg_id m = tid) prev) \<le> 1"
  shows "length (filter (\<lambda>m. msg_id m = tid) (putTemp tid' tm prev)) \<le> 1"
proof (cases "tid = tid'")
  case True
  then show ?thesis
    using assms putTemp_count [OF assms(1), of prev] by (auto split: if_splits)
next
  case False
  have "filter (\<lambda>m. msg_id m = tid) (map (\<lambda>m. if msg_id m = tid' then tm else m) prev)
      = filter (\<lambda>m. msg_id m = tid) prev"
    using False assms(1) by (induction prev) auto
  then show ?thesis
    using False assms by (simp add: putTemp_def)
qed

lemma filter_out_count_le:
  "length (filter (\<lambda>m. msg_id m = tid) (filter (\<lambda>m. msg_id m \<noteq> tid') prev))
     \<le> length (filter (\<lambda>m. msg_id m = tid) prev)"
  by (induction prev) auto

lemma finalize_count_le:
  assumes "msg_id fm \<noteq> tid" and "statusId cid' \<noteq> tid"
  shows "length (filter (\<lambda>m. msg_id m = tid) (finalize cid' fm prev))
       \<le> length (filter (\<lambda>m. msg_id m = tid) prev)"
proof -
  note a = filter_out_count_le [of tid "tempId cid'" prev]
  have b: "length (filter (\<lambda>m. msg_id m = tid)
           (map (\<lambda>m. if msg_id m = tempId cid' then toStatusHistory cid' m else m) prev))
      \<le> length (filter (\<lambda>m. msg_id m = tid) prev)"
    using assms(2) by (induction prev) (auto simp: toStatusHistory_def)
  show ?thesis
    using a b assms(1) by (simp add: finalize_def)
qed

lemma onChunk_placeholders:
  assumes "placeholders cid (messages u) \<le> 1"
  shows "placeholders cid (messages (state_of (onChunk cid' v j u))) \<le> 1"
proof -
  have "shown_from cid' u (state_of (onChunk cid' v j u))"
    by (rule onChunk_shown [OF shown_from_refl])
  then have "messages (state_of (onChunk cid' v j u)) = messages u \<or>
      (\<exists>tm. msg_id tm = tempId cid' \<and>
         messages (state_of (onChunk cid' v j u)) = putTemp (tempId cid') tm (messages u))"
    by (simp add: shown_from_def)
  then show ?thesis
    using assms putTemp_count_le [of _ "tempId cid'" "tempId cid" "messages u"]
    by (auto simp: placeholders_def)
qed

lemma onComplete_placeholders:
  assumes "placeholders cid (messages u) \<le> 1"
  shows "placeholders cid (messages (state_of (onComplete cid' v u))) \<le> 1"
proof -
  have "msg_id (finalMessage cid' v) \<noteq> tempId cid"
    by (simp add: finalMessage_def other_ids)
  from finalize_count_le [OF this other_ids(2), of cid' "messages u"] assms
  show ?thesis
    by (simp add: placeholders_def onComplete_def state_of_def)
qed

lemma onError_placeholders:
  assumes "placeholders cid (messages u) \<le> 1"
  shows "placeholders cid (messages (state_of (onError cid' e u))) \<le> 1"
  using assms filter_out_count_le [of "tempId cid" "tempId cid'" "messages u"]
  by (simp add: placeholders_def onError_def state_of_def errorMessage_def other_ids)

lemma sendMessage_placeholders:
  "placeholders cid (messages (fst (sendMessage ok now st txt c))) = placeholders cid (messages c)"
  by (simp add: placeholders_def sendMessage_def userMessage_def connectMessage_def other_ids Let_def)

lemma init_placeholders: "placeholders cid (messages (provider (main_chat_init st now))) = 0"
  using other_ids(4) [of now cid]
  by (simp add: placeholders_def main_chat_init_def welcomeMessage_def)

section \<open>The classifier under the chunk callback\<close>

lemma catch_line_Done:
  "tempMessage cid (statusUpdates_c u @ [\<lparr>agent = JNull, message = JStr line\<rparr>]) = Some tm \<Longrightarrow>
     catch_line (onChunk cid) line x u =
       Done (x\<lparr>statusUpdates := statusUpdates x @ [JStr line]\<rparr>,
             u\<lparr>messages := putTemp (tempId cid) tm (messages u),
               statusUpdates_c := statusUpdates_c u @ [\<lparr>agent = JNull, message = JStr line\<rparr>]\<rparr>)"
  by (simp add: catch_line_def onChunk_def showStatus_Done)

lemma catch_line_Threw:
  "tempMessage cid (statusUpdates_c u @ [\<lparr>agent = JNull, message = JStr line\<rparr>]) = None \<Longrightarrow>
     catch_line (onChunk cid) line x u =
       Threw (x\<lparr>statusUpdates := statusUpdates x @ [JStr line]\<rparr>,
              u\<lparr>statusUpdates_c := statusUpdates_c u @ [\<lparr>agent = JNull, message = JStr line\<rparr>]\<rparr>)"
  by (simp add: catch_line_def onChunk_def showStatus_Threw)

lemma process_line_unparsable:
  "parse line = None \<Longrightarrow>
   tempMessage cid (statusUpdates_c u @ [\<lparr>agent = JNull, message = JStr line\<rparr>]) = Some tm \<Longrightarrow>
     process_line parse (onChunk cid) line x u =
       Done (x\<lparr>statusUpdates := statusUpdates x @ [JStr line]\<rparr>,
             u\<lparr>messages := putTemp (tempId cid) tm (messages u),
               statusUpdates_c := statusUpdates_c u @ [\<lparr>agent = JNull, message = JStr line\<rparr>]\<rparr>)"
  by (simp add: process_line_def catch_line_Done)

lemma process_line_unparsable_Threw:
  "parse line = None \<Longrightarrow>
   tempMessage cid (statusUpdates_c u @ [\<lparr>agent = JNull, message = JStr line\<rparr>]) = None \<Longrightarrow>
     process_line parse (onChunk cid) line x u =
       Threw (x\<lparr>statusUpdates := statusUpdates x @ [JStr line]\<rparr>,
              u\<lparr>statusUpdates_c := statusUpdates_c u @ [\<lparr>agent = JNull, message = JStr line\<rparr>]\<rparr>)"
  by (simp add: process_line_def catch_line_Threw)

lemma status_not_nullish: "js_prop parsed k = JStr s \<Longrightarrow> \<not> nullish parsed"
  by (cases parsed) auto

lemma process_line_status:
  assumes "parse line = Some parsed" "js_prop parsed ''type'' = JStr ''status''"
    and "tempMessage cid (statusUpdates_c u @
           [\<lparr>agent = js_prop parsed ''agent'', message = js_prop parsed ''message''\<rparr>]) = Some tm"
  shows "process_line parse (onChunk cid) line x u =
       Done (x\<lparr>statusUpdates := statusUpdates x @ [js_prop parsed ''message'']\<rparr>,
             u\<lparr>messages := putTemp (tempId cid) tm (messages u),
               statusUpdates_c := statusUpdates_c u @
                 [\<lparr>agent = js_prop parsed ''agent'', message = js_prop parsed ''message''\<rparr>]\<rparr>)"
  using assms status_not_nullish [OF assms(2)]
  by (simp add: process_line_def onChunk_def showStatus_Done Let_def)

lemma process_line_status_Threw:
  assumes "parse line = Some parsed" "js_prop parsed ''type'' = JStr ''status''"
    and "tempMessage cid (statusUpdates_c u @
           [\<lparr>agent = js_prop parsed ''agent'', message = js_prop parsed ''message''\<rparr>]) = None"
  shows "process_line parse (onChunk cid) line x u =
       catch_line (onChunk cid) line
         (x\<lparr>statusUpdates := statusUpdates x @ [js_prop parsed ''message'']\<rparr>)
         (u\<lparr>statusUpdates_c := statusUpdates_c u @
                 [\<lparr>agent = js_prop parsed ''agent'', message = js_prop parsed ''message''\<rparr>]\<rparr>)"
  using assms status_not_nullish [OF assms(2)]
  by (simp add: process_line_def onChunk_def showStatus_Threw Let_def)

lemma process_line_response_quiet:
  assumes "parse line = Some parsed" "js_prop parsed ''type'' = JStr ''response''"
    and "\<not> nullish (js_prop parsed ''final_answer'')"
    and "\<not> truthy (js_prop (js_prop parsed ''final_answer'') ''isStatus'')"
  shows "process_line parse (onChunk cid) line x u =
       Done (x\<lparr>finalResponse := js_prop parsed ''final_answer''\<rparr>, u)"
  using assms status_not_nullish [OF assms(2)]
  by (simp add: process_line_def onChunk_def Let_def)

lemma process_line_response_flagged:
  assumes "parse line = Some parsed" "js_prop parsed ''type'' = JStr ''response''"
    and "\<not> nullish (js_prop parsed ''final_answer'')"
    and "truthy (js_prop (js_prop parsed ''final_answer'') ''isStatus'')"
    and "tempMessage cid (statusUpdates_c u @
           [\<lparr>agent = js_prop (js_prop parsed ''final_answer'') ''agent'',
             message = js_prop (js_prop parsed ''final_answer'') ''message''\<rparr>]) = Some tm"
  shows "process_line parse (onChunk cid) line x u =
       Done (x\<lparr>finalResponse := js_prop parsed ''final_answer''\<rparr>,
             u\<lparr>messages := putTemp (tempId cid) tm (messages u),
               statusUpdates_c := statusUpdates_c u @
                 [\<lparr>agent = js_prop (js_prop parsed ''final_answer'') ''agent'',
                   message = js_prop (js_prop parsed ''final_answer'') ''message''\<rparr>]\<rparr>)"
  using assms status_not_nullish [OF assms(2)]
  by (simp add: process_line_def onChunk_def showStatus_Done Let_def)

section \<open>The sample texts\<close>

lemma json_sample_simps:
  "json_sample ''ab'' = None" "json_sample ''c'' = None" "json_sample ''abc'' = None"
  "json_sample ''garbage'' = None"
  by (simp_all add: json_sample_def status_m1_def status_m2_def status_bad_def response_X_def
      response_false_def response_flagged_def)

lemma json_sample_null: "json_sample ''null'' = Some JNull"
  by (simp add: json_sample_def)

lemma json_sample_values:
  "json_sample status_m1 = Some (JObj [(''type'', JStr ''status''), (''message'', JStr ''m1'')])"
  "json_sample status_m2 = Some (JObj [(''type'', JStr ''status''), (''agent'', JStr ''Critic''), (''message'', JStr ''m2'')])"
  "json_sample response_X = Some (JObj [(''type'', JStr ''response''), (''final_answer'', JObj [(''content'', JStr ''X'')])])"
  "json_sample response_false = Some (JObj [(''type'', JStr ''response''), (''final_answer'', JBool False)])"
  "json_sample response_flagged = Some (JObj [(''type'', JStr ''response''),
       (''final_answer'', JObj [(''isStatus'', JBool True), (''message'', JStr ''hi'')])])"
  "json_sample status_bad = Some (JObj [(''type'', JStr ''status''),
       (''message'', JObj [(''toString'', JNum ''1'')])])"
  by (simp_all add: json_sample_def status_m1_def status_m2_def status_bad_def response_X_def
      response_false_def response_flagged_def)

lemma sample_lines:
  "CHR 0x0A \<notin> set status_m1" "trim status_m1 \<noteq> []"
  "CHR 0x0A \<notin> set status_m2" "trim status_m2 \<noteq> []"
  "CHR 0x0A \<notin> set response_X" "trim response_X \<noteq> []"
  "CHR 0x0A \<notin> set ''garbage''" "trim ''garbage'' \<noteq> []"
  "CHR 0x0A \<notin> set status_bad" "trim status_bad \<noteq> []"
  by (simp_all add: status_m1_def status_m2_def status_bad_def response_X_def trim_def is_space_def)

lemma tempMessage_hello:
  "tempMessage ''1'' [\<lparr>agent = JNull, message = JStr ''hello''\<rparr>] = Some placeholder_hello"
  by (simp add: tempMessage_def formatStatus_def join_js_def tempId_def placeholder_hello_def)

lemma scope_shown_eq:
  "scope_shown = \<lparr>messages = [placeholder_hello], isTyping = True,
                  statusUpdates_c = [\<lparr>agent = JNull, message = JStr ''hello''\<rparr>]\<rparr>"
  by (simp add: scope_shown_def showStatus_def tempMessage_hello state_of_def open_scope_def
      chat_empty_def putTemp_def Let_def)

section \<open>Completion\<close>

lemma finalize_last: "last (finalize cid fm prev) = fm" "finalize cid fm prev \<noteq> []"
  by (simp_all add: finalize_def)

lemma onload_ok:
  assumes "200 \<le> status" "status < 300"
  shows "onload parse oc oe status body x u =
     (if truthy (finalResponse x) then oc (finalResponse x) u
      else
        (case (if nonblank_lines (receivedData x) \<noteq> [] then
                 (case parse (last (nonblank_lines (receivedData x))) of
                    None \<Rightarrow> Threw u
                  | Some parsed \<Rightarrow> oc parsed u)
               else oc (JObj [(''content'', JStr ''Received response but couldn't parse final result'')]) u) of
           Done u' \<Rightarrow> Done u'
         | Threw u' \<Rightarrow>
             (case join_js [CHR 0x0A] (statusUpdates x) of
                None \<Rightarrow> Threw u'
              | Some joined \<Rightarrow>
                  oc (JObj [(''content'',
                        (if joined \<noteq> [] then JStr joined else JStr ''Request completed''))]) u')))"
  unfolding onload_def Let_def using assms by simp

lemma stream_request_resolved:
  assumes al: "\<forall>d \<in> set (butlast ds). d = [] \<or> last d = CHR 0x0A"
    and ls: "nonblank_lines (concat ds) = ls"
    and fl: "for_lines parse (onChunk cid) ls xhr_init (open_scope c) = Done (x, u)"
    and ok: "200 \<le> status" "status < 300"
  shows "stream_request parse cid (Respond ds (Load status)) c =
     state_of
       (if truthy (finalResponse x) then onComplete cid (finalResponse x) u
        else
          (case (if ls \<noteq> [] then
                   (case parse (last ls) of
                      None \<Rightarrow> Threw u
                    | Some parsed \<Rightarrow> onComplete cid parsed u)
                 else onComplete cid
                        (JObj [(''content'', JStr ''Received response but couldn't parse final result'')]) u) of
             Done u' \<Rightarrow> Done u'
           | Threw u' \<Rightarrow>
               (case join_js [CHR 0x0A] (statusUpdates x) of
                  None \<Rightarrow> Threw u'
                | Some joined \<Rightarrow>
                    onComplete cid
                      (JObj [(''content'',
                         (if joined \<noteq> [] then JStr joined else JStr ''Request completed''))]) u')))"
proof -
  have "emitted_lines (receivedData xhr_init) ds = ls"
    using aligned_concat [OF al] ls by (simp add: emitted_lines_concat)
  with fl have "for_lines parse (onChunk cid) (emitted_lines (receivedData xhr_init) ds)
      xhr_init (open_scope c) = Done (x, u)"
    by simp
  from deliver_emitted [OF this]
  have d: "deliver parse (onChunk cid) ds xhr_init (open_scope c) = (x\<lparr>receivedData := concat ds\<rparr>, u)"
    by (simp add: xhr_init_def)
  have sel: "statusUpdates (x\<lparr>receivedData := concat ds\<rparr>) = statusUpdates x"
    "finalResponse (x\<lparr>receivedData := concat ds\<rparr>) = finalResponse x"
    "receivedData (x\<lparr>receivedData := concat ds\<rparr>) = concat ds"
    by simp_all
  have "stream_request parse cid (Respond ds (Load status)) c =
      state_of (onload parse (onComplete cid) (onError cid) status (concat ds)
                  (x\<lparr>receivedData := concat ds\<rparr>) u)"
    using d by (simp add: stream_request_def fetchStreamWithErrorHandling_def)
  then show ?thesis
    unfolding onload_ok [OF ok] sel ls by simp
qed

lemma finalMessage_flags:
  "\<not> isStatusHistory (finalMessage cid finalData)" "\<not> isTemp (finalMessage cid finalData)"
  by (simp_all add: finalMessage_def)

section \<open>Streams whose status updates can be printed\<close>






lemma onprogress_lines_Threw:
  assumes "for_lines parse cb (nonblank_lines d) x u = Threw (x', u')"
  shows "onprogress parse cb (receivedData x @ d) x u = (x'\<lparr>receivedData := receivedData x @ d\<rparr>, u')"
proof (cases "d = []")
  case True
  with assms show ?thesis by (simp add: nonblank_lines_Nil)
next
  case False
  then show ?thesis
    using assms by (simp add: onprogress_def Let_def for_lines_received)
qed

section \<open>The sample session\<close>

lemma session_asked_eq:
  "session_asked =
     \<lparr>message_input = [], selectedTopic = Some ''general'', settings = settings_off,
      provider = \<lparr>messages = [welcomeMessage ''0'', userMessage ''1'' ''hi''], isTyping = True\<rparr>,
      outstanding = [\<lparr>req_conversationId = ''1'', question = ''hi'',
                      opt_includeDebateDetails = False, opt_maxIterations = 10\<rparr>]\<rparr>"
  by (simp add: session_asked_def handleSend_def setMessage_def main_chat_init_def sendMessage_def
      trim_def is_space_def settings_off_def Let_def)

lemma session_answered_messages:
  "messages (provider session_answered) =
     [welcomeMessage ''0'', userMessage ''1'' ''hi'',
      toStatusHistory ''1''
        (placeholder_hello\<lparr>content := JStr (''m1'' @ [CHR 0x0A, CHR 0x0A] @ ''*Processing...*'')\<rparr>),
      finalMessage ''1'' (JObj [(''content'', JStr ''X'')])]"
proof -
  let ?c = "\<lparr>messages = [welcomeMessage ''0'', userMessage ''1'' ''hi''], isTyping = True\<rparr>"
  let ?ds = "[status_m1 @ [CHR 0x0A], response_X @ [CHR 0x0A]]"
  let ?tm = "placeholder_hello\<lparr>content := JStr (''m1'' @ [CHR 0x0A, CHR 0x0A] @ ''*Processing...*'')\<rparr>"
  let ?u = "(open_scope ?c)\<lparr>messages := putTemp (tempId ''1'') ?tm (messages (open_scope ?c)),
      statusUpdates_c := [\<lparr>agent = JUndefined, message = JStr ''m1''\<rparr>]\<rparr>"
  have al: "\<forall>d \<in> set (butlast ?ds). d = [] \<or> last d = CHR 0x0A"
    by simp
  have ls: "nonblank_lines (concat ?ds) = [status_m1, response_X]"
    using sample_lines by (simp add: nonblank_lines_clean nonblank_lines_Nil)
  have t: "tempMessage ''1'' (statusUpdates_c (open_scope ?c) @ [\<lparr>agent = JUndefined, message = JStr ''m1''\<rparr>])
      = Some ?tm"
    by (simp add: open_scope_def tempMessage_def formatStatus_def join_js_def tempId_def
        placeholder_hello_def)
  have p1: "process_line json_sample (onChunk ''1'') status_m1 xhr_init (open_scope ?c) =
      Done (xhr_init\<lparr>statusUpdates := [JStr ''m1'']\<rparr>, ?u)"
    using process_line_status [where parse = json_sample and cid = "''1''" and x = xhr_init
        and u = "open_scope ?c" and tm = ?tm, OF json_sample_values(1)] t
    by (simp add: xhr_init_def open_scope_def)
  have p2: "process_line json_sample (onChunk ''1'') response_X x u =
      Done (x\<lparr>finalResponse := JObj [(''content'', JStr ''X'')]\<rparr>, u)" for x u
    using process_line_response_quiet [where parse = json_sample, OF json_sample_values(3)] by simp
  have fl: "for_lines json_sample (onChunk ''1'') [status_m1, response_X] xhr_init (open_scope ?c)
      = Done (xhr_init\<lparr>statusUpdates := [JStr ''m1''], finalResponse := JObj [(''content'', JStr ''X'')]\<rparr>, ?u)"
    by (simp add: p1 p2)
  have ok: "(200::nat) \<le> 200" "(200::nat) < 300" by simp_all
  have "stream_request json_sample ''1'' (Respond ?ds (Load 200)) ?c
      = state_of (onComplete ''1'' (JObj [(''content'', JStr ''X'')]) ?u)"
    unfolding stream_request_resolved [OF al ls fl ok] by simp
  then show ?thesis
    by (simp add: session_answered_def settle_def session_asked_eq onComplete_def state_of_def
        chat.defs open_scope_def putTemp_def finalize_def Let_def
        welcomeMessage_def userMessage_def userId_def placeholder_hello_def tempId_def statusId_def)
qed

section \<open>Split-invariance of the line parser\<close>

text \<open>
  C2, as stated, fails on the code: \<open>onprogress\<close> moves the cursor to the end of the data
  received and splits the new part on its own, so a delivery that ends inside a line hands the
  fragment to the classifier at once, and the rest of the line comes as another line.
\<close>

theorem line_parser_split_counterexample:
  "emitted_lines [] [''ab'', ''c'' @ [CHR 0x0A]] = [''ab'', ''c'']
   \<and> emitted_lines [] [''abc'' @ [CHR 0x0A]] = [''abc'']
   \<and> statusUpdates (fst (deliver json_sample (onChunk ''1'') [''ab'', ''c'' @ [CHR 0x0A]]
          xhr_init (open_scope chat_empty))) = [JStr ''ab'', JStr ''c'']
   \<and> statusUpdates (fst (deliver json_sample (onChunk ''1'') [''abc'' @ [CHR 0x0A]]
          xhr_init (open_scope chat_empty))) = [JStr ''abc'']"
  by (simp add: nonblank_lines_def trim_def is_space_def onprogress_def xhr_init_def
      process_line_def catch_line_def onChunk_def showStatus_def tempMessage_def formatStatus_def
      join_js_def json_sample_simps open_scope_def chat_empty_def Let_def)

text \<open>
  C2 (amended). When every delivery but the last is empty or ends with a newline, the lines
  the loop goes through are the non-blank lines of the whole body, the same as when the body
  comes in one delivery. When, moreover, the loop over these lines runs to its end (no
  exception leaves the body of the loop), the deliveries and the single delivery leave the
  same state behind: the one of that loop, with the cursor at the end of the body.
\<close>

theorem line_parser_aligned:
  assumes "\<forall>d \<in> set (butlast ds). d = [] \<or> last d = CHR 0x0A"
  shows "emitted_lines received ds = emitted_lines received [concat ds]
       \<and> emitted_lines received ds = nonblank_lines (concat ds)
       \<and> (for_lines parse cb (nonblank_lines (concat ds)) x u = Done (x', u') \<longrightarrow>
            deliver parse cb ds x u = (x'\<lparr>receivedData := receivedData x @ concat ds\<rparr>, u')
            \<and> deliver parse cb [concat ds] x u
                = (x'\<lparr>receivedData := receivedData x @ concat ds\<rparr>, u'))"
proof -
  have a: "emitted_lines r ds = nonblank_lines (concat ds)" for r
    using aligned_concat [OF assms] by (simp add: emitted_lines_concat)
  have b: "emitted_lines r [concat ds] = nonblank_lines (concat ds)" for r
    by (simp add: emitted_lines_concat)
  have c: "deliver parse cb ds x u = (x'\<lparr>receivedData := receivedData x @ concat ds\<rparr>, u')"
    if "for_lines parse cb (nonblank_lines (concat ds)) x u = Done (x', u')"
    using deliver_emitted [of parse cb x ds u x' u'] that by (simp add: a)
  have e: "concat [concat ds] = concat ds"
    by simp
  have d: "deliver parse cb [concat ds] x u = (x'\<lparr>receivedData := receivedData x @ concat ds\<rparr>, u')"
    if "for_lines parse cb (nonblank_lines (concat ds)) x u = Done (x', u')"
  proof -
    have "for_lines parse cb (emitted_lines (receivedData x) [concat ds]) x u = Done (x', u')"
      by (simp only: b that)
    from deliver_emitted [OF this] show ?thesis
      unfolding e .
  qed
  have f: "emitted_lines received ds = emitted_lines received [concat ds]"
    unfolding a b ..
  show ?thesis
  proof (intro conjI impI)
    show "emitted_lines received ds = emitted_lines received [concat ds]"
      by (rule f)
    show "emitted_lines received ds = nonblank_lines (concat ds)"
      by (rule a)
  qed (rule c, assumption, rule d, assumption)
qed

theorem line_parser_aligned_witness:
  "emitted_lines [] [''ab'' @ [CHR 0x0A], ''c'' @ [CHR 0x0A]]
     = emitted_lines [] [''ab'' @ [CHR 0x0A] @ ''c'' @ [CHR 0x0A]]
   \<and> emitted_lines [] [''ab'' @ [CHR 0x0A], ''c'' @ [CHR 0x0A]] = [''ab'', ''c'']
   \<and> for_lines json_sample (onChunk ''1'') [''ab'', ''c''] xhr_init (open_scope chat_empty)
       = Done (xhr_init\<lparr>statusUpdates := [JStr ''ab'', JStr ''c'']\<rparr>,
               (open_scope chat_empty)\<lparr>messages :=
                   [placeholder_hello\<lparr>content :=
                      JStr (''ab'' @ [CHR 0x0A, CHR 0x0A] @ ''c'' @ [CHR 0x0A, CHR 0x0A] @ ''*Processing...*'')\<rparr>],
                 statusUpdates_c := [\<lparr>agent = JNull, message = JStr ''ab''\<rparr>,
                                     \<lparr>agent = JNull, message = JStr ''c''\<rparr>]\<rparr>)
   \<and> deliver json_sample (onChunk ''1'') [''ab'' @ [CHR 0x0A], ''c'' @ [CHR 0x0A]] xhr_init
        (open_scope chat_empty)
       = (xhr_init\<lparr>statusUpdates := [JStr ''ab'', JStr ''c''],
                    receivedData := ''ab'' @ [CHR 0x0A] @ ''c'' @ [CHR 0x0A]\<rparr>,
          (open_scope chat_empty)\<lparr>messages :=
                   [placeholder_hello\<lparr>content :=
                      JStr (''ab'' @ [CHR 0x0A, CHR 0x0A] @ ''c'' @ [CHR 0x0A, CHR 0x0A] @ ''*Processing...*'')\<rparr>],
                 statusUpdates_c := [\<lparr>agent = JNull, message = JStr ''ab''\<rparr>,
                                     \<lparr>agent = JNull, message = JStr ''c''\<rparr>]\<rparr>)
   \<and> deliver json_sample (onChunk ''1'') [''ab'' @ [CHR 0x0A] @ ''c'' @ [CHR 0x0A]] xhr_init
        (open_scope chat_empty)
       = (xhr_init\<lparr>statusUpdates := [JStr ''ab'', JStr ''c''],
                    receivedData := ''ab'' @ [CHR 0x0A] @ ''c'' @ [CHR 0x0A]\<rparr>,
          (open_scope chat_empty)\<lparr>messages :=
                   [placeholder_hello\<lparr>content :=
                      JStr (''ab'' @ [CHR 0x0A, CHR 0x0A] @ ''c'' @ [CHR 0x0A, CHR 0x0A] @ ''*Processing...*'')\<rparr>],
                 statusUpdates_c := [\<lparr>agent = JNull, message = JStr ''ab''\<rparr>,
                                     \<lparr>agent = JNull, message = JStr ''c''\<rparr>]\<rparr>)"
proof -
  let ?x = "xhr_init\<lparr>statusUpdates := [JStr ''ab'', JStr ''c'']\<rparr>"
  let ?u = "(open_scope chat_empty)\<lparr>messages :=
                   [placeholder_hello\<lparr>content :=
                      JStr (''ab'' @ [CHR 0x0A, CHR 0x0A] @ ''c'' @ [CHR 0x0A, CHR 0x0A] @ ''*Processing...*'')\<rparr>],
                 statusUpdates_c := [\<lparr>agent = JNull, message = JStr ''ab''\<rparr>,
                                     \<lparr>agent = JNull, message = JStr ''c''\<rparr>]\<rparr>"
  have l: "nonblank_lines (''ab'' @ [CHR 0x0A] @ ''c'' @ [CHR 0x0A]) = [''ab'', ''c'']"
    by (simp add: nonblank_lines_def trim_def is_space_def)
  have f: "for_lines json_sample (onChunk ''1'') [''ab'', ''c''] xhr_init (open_scope chat_empty)
       = Done (?x, ?u)"
    by (simp add: process_line_def catch_line_def onChunk_def showStatus_def tempMessage_def
        formatStatus_def join_js_def putTemp_def tempId_def placeholder_hello_def
        json_sample_simps xhr_init_def open_scope_def chat_empty_def Let_def)
  show ?thesis
    using line_parser_aligned [of "[''ab'' @ [CHR 0x0A], ''c'' @ [CHR 0x0A]]" "[]"
        json_sample "onChunk ''1''" xhr_init "open_scope chat_empty" ?x ?u]
      l f
    by (simp add: xhr_init_def)
qed

section \<open>At most one placeholder\<close>

text \<open>
  C3, as stated, fails on the code: a status event replaces the placeholder only when the
  callback gets as far as \<open>setMessages\<close>. The callback pushes the update and then formats
  all updates of the request; a status whose \<open>message\<close> is an object with a property
  \<open>toString\<close> makes that throw, here and at every later event of the request, as the
  update stays in the array. Below a placeholder is shown, then two status events are
  processed (with the plain-text fallback of each, five updates in all), and the list still
  holds the first placeholder.
\<close>

theorem placeholder_replaced_counterexample:
  "messages scope_shown = [placeholder_hello]
   \<and> statusUpdates_c (snd (deliver json_sample (onChunk ''1'')
        [status_bad @ [CHR 0x0A], status_m1 @ [CHR 0x0A]] xhr_init scope_shown))
       = [\<lparr>agent = JNull, message = JStr ''hello''\<rparr>,
          \<lparr>agent = JUndefined, message = JObj [(''toString'', JNum ''1'')]\<rparr>,
          \<lparr>agent = JNull, message = JStr status_bad\<rparr>,
          \<lparr>agent = JUndefined, message = JStr ''m1''\<rparr>,
          \<lparr>agent = JNull, message = JStr status_m1\<rparr>]
   \<and> messages (snd (deliver json_sample (onChunk ''1'')
        [status_bad @ [CHR 0x0A], status_m1 @ [CHR 0x0A]] xhr_init scope_shown))
       = [placeholder_hello]"
proof -
  have l: "nonblank_lines (status_bad @ [CHR 0x0A]) = [status_bad]"
    "nonblank_lines (status_m1 @ [CHR 0x0A]) = [status_m1]"
    using sample_lines by (simp_all add: nonblank_lines_clean nonblank_lines_Nil)
  have n: "status_bad \<noteq> []" "status_m1 \<noteq> []"
    by (simp_all add: status_bad_def status_m1_def)
  show ?thesis
    by (simp add: scope_shown_eq onprogress_def l n xhr_init_def process_line_def catch_line_def
        json_sample_values onChunk_def showStatus_def tempMessage_def formatStatus_def
        join_js_def Let_def)
qed

text \<open>
  C3 (amended). For a request \<open>cid\<close>, starting from a list with at most one message whose
  id is the request's temporary id, the list has at most one such message after any
  deliveries and after any lines of a delivery, and once the placeholder is there the
  progress events keep the length of the list. A status event whose transcript can be
  formatted puts the new placeholder \<open>tm\<close> into the list, be it a status line of the
  stream, a status chunk handed to the callback or a plain-text chunk: \<open>tm\<close> takes the
  place of the placeholder when there is one and comes last when there is none, and the
  list then has exactly one. The bound is kept by every handler that changes the list, of
  this request or of another one \<open>cid'\<close> (chunk, completion and error callbacks,
  \<open>sendMessage\<close>), and the list the provider starts with has no placeholder.
\<close>

theorem placeholder_at_most_one:
  assumes "placeholders cid (messages u) \<le> 1"
  shows "placeholders cid (messages (snd (deliver parse (onChunk cid) ds x u))) \<le> 1
       \<and> placeholders cid (messages (snd (state_of (for_lines parse (onChunk cid) ls x u)))) \<le> 1
       \<and> (placeholders cid (messages u) = 1 \<longrightarrow>
            length (messages (snd (deliver parse (onChunk cid) ds x u))) = length (messages u))
       \<and> (parse line = Some parsed \<and> js_prop parsed ''type'' = JStr ''status''
            \<and> su = \<lparr>agent = js_prop parsed ''agent'', message = js_prop parsed ''message''\<rparr>
            \<and> tempMessage cid (statusUpdates_c u @ [su]) = Some tm \<longrightarrow>
            process_line parse (onChunk cid) line x u =
              Done (x\<lparr>statusUpdates := statusUpdates x @ [js_prop parsed ''message'']\<rparr>,
                    u\<lparr>messages := putTemp (tempId cid) tm (messages u),
                      statusUpdates_c := statusUpdates_c u @ [su]\<rparr>))
       \<and> (tempMessage cid (statusUpdates_c u @ [su]) = Some tm \<longrightarrow>
            onChunk cid (JObj [(''isStatus'', JBool True), (''message'', message su),
                               (''agent'', agent su)]) True u =
              Done (u\<lparr>messages := putTemp (tempId cid) tm (messages u),
                      statusUpdates_c := statusUpdates_c u @ [su]\<rparr>)
            \<and> (agent su = JNull \<longrightarrow>
                 onChunk cid (message su) False u =
                   Done (u\<lparr>messages := putTemp (tempId cid) tm (messages u),
                           statusUpdates_c := statusUpdates_c u @ [su]\<rparr>))
            \<and> msg_id tm = tempId cid
            \<and> placeholders cid (putTemp (tempId cid) tm (messages u)) = 1
            \<and> (placeholders cid (messages u) = 1 \<longrightarrow>
                 putTemp (tempId cid) tm (messages u) =
                   map (\<lambda>m. if msg_id m = tempId cid then tm else m) (messages u))
            \<and> (placeholders cid (messages u) = 0 \<longrightarrow>
                 putTemp (tempId cid) tm (messages u) = messages u @ [tm]))
       \<and> placeholders cid (messages (state_of (onChunk cid' v isJSON u))) \<le> 1
       \<and> placeholders cid (messages (state_of (onComplete cid' v u))) \<le> 1
       \<and> placeholders cid (messages (state_of (onError cid' e u))) \<le> 1
       \<and> placeholders cid (messages (fst (sendMessage setupOk now st typed c)))
           = placeholders cid (messages c)
       \<and> placeholders cid (messages (provider (main_chat_init st now))) = 0"
proof -
  have d: "shown_from cid u (snd (deliver parse (onChunk cid) ds x u))"
    by (rule deliver_shown [OF shown_from_refl])
  have f: "shown_from cid u (snd (state_of (for_lines parse (onChunk cid) ls x u)))"
    by (rule for_lines_shown [OF shown_from_refl])
  have c: "length (filter (\<lambda>m. msg_id m = tempId cid) (messages u)) \<le> 1"
    using assms by (simp add: placeholders_def)
  have e: "list_ex (\<lambda>m. msg_id m = tempId cid) (messages u)"
    if "placeholders cid (messages u) = 1"
  proof -
    from that have "filter (\<lambda>m. msg_id m = tempId cid) (messages u) \<noteq> []"
      by (auto simp: placeholders_def)
    then show ?thesis
      by (auto simp: list_ex_iff filter_empty_conv)
  qed
  have z: "\<not> list_ex (\<lambda>m. msg_id m = tempId cid) (messages u)"
    if "placeholders cid (messages u) = 0"
    using that by (auto simp: placeholders_def list_ex_iff filter_empty_conv)
  have bounds: "placeholders cid (messages (snd (deliver parse (onChunk cid) ds x u))) \<le> 1"
    "placeholders cid (messages (snd (state_of (for_lines parse (onChunk cid) ls x u)))) \<le> 1"
    using shown_from_count [OF d c] shown_from_count [OF f c] by (simp_all add: placeholders_def)
  have len: "length (messages (snd (deliver parse (onChunk cid) ds x u))) = length (messages u)"
    if "placeholders cid (messages u) = 1"
    by (rule shown_from_length [OF d e [OF that]])
  have line: "process_line parse (onChunk cid) line x u =
              Done (x\<lparr>statusUpdates := statusUpdates x @ [js_prop parsed ''message'']\<rparr>,
                    u\<lparr>messages := putTemp (tempId cid) tm (messages u),
                      statusUpdates_c := statusUpdates_c u @ [su]\<rparr>)"
    if "parse line = Some parsed" "js_prop parsed ''type'' = JStr ''status''"
      "su = \<lparr>agent = js_prop parsed ''agent'', message = js_prop parsed ''message''\<rparr>"
      "tempMessage cid (statusUpdates_c u @ [su]) = Some tm"
    using process_line_status [where parse = parse and line = line and cid = cid and u = u
        and tm = tm and x = x, OF that(1,2)] that(3,4)
    by simp
  have su: "\<lparr>agent = agent su, message = message su\<rparr> = su"
    by simp
  have chunk: "onChunk cid (JObj [(''isStatus'', JBool True), (''message'', message su),
                               (''agent'', agent su)]) True u =
              Done (u\<lparr>messages := putTemp (tempId cid) tm (messages u),
                      statusUpdates_c := statusUpdates_c u @ [su]\<rparr>)"
    if "tempMessage cid (statusUpdates_c u @ [su]) = Some tm"
    using showStatus_Done [OF that] by (simp add: onChunk_def su)
  have plain: "onChunk cid (message su) False u =
                   Done (u\<lparr>messages := putTemp (tempId cid) tm (messages u),
                           statusUpdates_c := statusUpdates_c u @ [su]\<rparr>)"
    if "tempMessage cid (statusUpdates_c u @ [su]) = Some tm" "agent su = JNull"
  proof -
    have "\<lparr>agent = JNull, message = message su\<rparr> = su"
      using that(2) su by simp
    then show ?thesis
      using showStatus_Done [OF that(1)] by (simp add: onChunk_def)
  qed
  have one: "placeholders cid (putTemp (tempId cid) tm (messages u)) = 1"
    if "tempMessage cid (statusUpdates_c u @ [su]) = Some tm"
    using putTemp_count [OF tempMessage_id [OF that], of "messages u"] c
    by (auto simp: placeholders_def list_ex_iff filter_empty_conv le_Suc_eq split: if_splits)
  have rep: "putTemp (tempId cid) tm (messages u) =
                   map (\<lambda>m. if msg_id m = tempId cid then tm else m) (messages u)"
    if "placeholders cid (messages u) = 1"
    using e [OF that] by (simp add: putTemp_def)
  have app: "putTemp (tempId cid) tm (messages u) = messages u @ [tm]"
    if "placeholders cid (messages u) = 0"
    using z [OF that] by (simp add: putTemp_def)
  show ?thesis
    apply (intro conjI impI)
    subgoal by (rule bounds(1))
    subgoal by (rule bounds(2))
    subgoal by (rule len)
    subgoal by (elim conjE) (rule line)
    subgoal by (rule chunk)
    subgoal by (rule plain)
    subgoal by (rule tempMessage_id)
    subgoal by (rule one)
    subgoal by (rule rep)
    subgoal by (rule app)
    subgoal by (rule onChunk_placeholders [OF assms])
    subgoal by (rule onComplete_placeholders [OF assms])
    subgoal by (rule onError_placeholders [OF assms])
    subgoal by (rule sendMessage_placeholders)
    subgoal by (rule init_placeholders)
    done
qed

theorem placeholder_at_most_one_witness:
  "placeholders ''1'' (messages scope_shown) = 1
   \<and> placeholders ''1'' (messages (snd (deliver json_sample (onChunk ''1'')
        [status_m1 @ [CHR 0x0A], status_m2 @ [CHR 0x0A]] xhr_init scope_shown))) \<le> 1
   \<and> length (messages (snd (deliver json_sample (onChunk ''1'')
        [status_m1 @ [CHR 0x0A], status_m2 @ [CHR 0x0A]] xhr_init scope_shown)))
       = length (messages scope_shown)
   \<and> messages scope_shown = [placeholder_hello]
   \<and> process_line json_sample (onChunk ''1'') status_m1 xhr_init scope_shown =
       Done (xhr_init\<lparr>statusUpdates := [JStr ''m1'']\<rparr>,
             scope_shown\<lparr>messages :=
                 [placeholder_hello\<lparr>content :=
                    JStr (''hello'' @ [CHR 0x0A, CHR 0x0A] @ ''m1'' @ [CHR 0x0A, CHR 0x0A] @ ''*Processing...*'')\<rparr>],
               statusUpdates_c := [\<lparr>agent = JNull, message = JStr ''hello''\<rparr>,
                                   \<lparr>agent = JUndefined, message = JStr ''m1''\<rparr>]\<rparr>)
   \<and> onChunk ''1'' (JStr ''garbage'') False scope_shown =
       Done (scope_shown\<lparr>messages :=
                 [placeholder_hello\<lparr>content :=
                    JStr (''hello'' @ [CHR 0x0A, CHR 0x0A] @ ''garbage'' @ [CHR 0x0A, CHR 0x0A] @ ''*Processing...*'')\<rparr>],
               statusUpdates_c := [\<lparr>agent = JNull, message = JStr ''hello''\<rparr>,
                                   \<lparr>agent = JNull, message = JStr ''garbage''\<rparr>]\<rparr>)
   \<and> placeholders ''1'' (messages (open_scope chat_empty)) = 0
   \<and> onChunk ''1'' (JObj [(''isStatus'', JBool True), (''message'', JStr ''hello''), (''agent'', JNull)])
        True (open_scope chat_empty) =
       Done ((open_scope chat_empty)\<lparr>messages := [placeholder_hello],
               statusUpdates_c := [\<lparr>agent = JNull, message = JStr ''hello''\<rparr>]\<rparr>)
   \<and> placeholders ''1'' (messages (state_of (onComplete ''2'' (JStr ''done'') scope_shown))) \<le> 1"
proof -
  let ?tm1 = "placeholder_hello\<lparr>content :=
       JStr (''hello'' @ [CHR 0x0A, CHR 0x0A] @ ''m1'' @ [CHR 0x0A, CHR 0x0A] @ ''*Processing...*'')\<rparr>"
  let ?tm2 = "placeholder_hello\<lparr>content :=
       JStr (''hello'' @ [CHR 0x0A, CHR 0x0A] @ ''garbage'' @ [CHR 0x0A, CHR 0x0A] @ ''*Processing...*'')\<rparr>"
  have m: "messages scope_shown = [placeholder_hello]"
    "statusUpdates_c scope_shown = [\<lparr>agent = JNull, message = JStr ''hello''\<rparr>]"
    by (simp_all add: scope_shown_eq)
  have h: "placeholders ''1'' (messages scope_shown) = 1"
    by (simp add: m placeholders_def placeholder_hello_def tempId_def)
  then have h': "placeholders ''1'' (messages scope_shown) \<le> 1"
    by simp
  have z: "placeholders ''1'' (messages (open_scope chat_empty)) = 0"
    "placeholders ''1'' (messages (open_scope chat_empty)) \<le> 1"
    by (simp_all add: placeholders_def open_scope_def chat_empty_def)
  have t1: "tempMessage ''1'' (statusUpdates_c scope_shown @ [\<lparr>agent = JUndefined, message = JStr ''m1''\<rparr>])
      = Some ?tm1"
    by (simp add: m tempMessage_def formatStatus_def join_js_def tempId_def placeholder_hello_def)
  have t2: "tempMessage ''1'' (statusUpdates_c scope_shown @ [\<lparr>agent = JNull, message = JStr ''garbage''\<rparr>])
      = Some ?tm2"
    by (simp add: m tempMessage_def formatStatus_def join_js_def tempId_def placeholder_hello_def)
  have t3: "tempMessage ''1'' (statusUpdates_c (open_scope chat_empty) @ [\<lparr>agent = JNull, message = JStr ''hello''\<rparr>])
      = Some placeholder_hello"
    by (simp add: open_scope_def tempMessage_hello)
  have p1: "putTemp (tempId ''1'') tm [placeholder_hello] = [tm]" for tm
    by (simp add: putTemp_def tempId_def placeholder_hello_def)
  have p0: "putTemp (tempId ''1'') tm [] = [tm]" for tm
    by (simp add: putTemp_def)
  note a = placeholder_at_most_one [OF h', where parse = json_sample
        and ds = "[status_m1 @ [CHR 0x0A], status_m2 @ [CHR 0x0A]]" and x = xhr_init
        and cid' = "''2''" and v = "JStr ''done''" and line = status_m1
        and parsed = "JObj [(''type'', JStr ''status''), (''message'', JStr ''m1'')]"
        and su = "\<lparr>agent = JUndefined, message = JStr ''m1''\<rparr>" and tm = ?tm1]
  note b = placeholder_at_most_one [OF h', where su = "\<lparr>agent = JNull, message = JStr ''garbage''\<rparr>"
        and tm = ?tm2, THEN conjunct2, THEN conjunct2, THEN conjunct2, THEN conjunct2,
        THEN conjunct1, THEN mp, OF t2]
  note c = placeholder_at_most_one [OF z(2), where su = "\<lparr>agent = JNull, message = JStr ''hello''\<rparr>"
        and tm = placeholder_hello, THEN conjunct2, THEN conjunct2, THEN conjunct2,
        THEN conjunct2, THEN conjunct1, THEN mp, OF t3]
  have w1: "placeholders ''1'' (messages (snd (deliver json_sample (onChunk ''1'')
        [status_m1 @ [CHR 0x0A], status_m2 @ [CHR 0x0A]] xhr_init scope_shown))) \<le> 1"
    by (rule a [THEN conjunct1])
  have w2: "length (messages (snd (deliver json_sample (onChunk ''1'')
        [status_m1 @ [CHR 0x0A], status_m2 @ [CHR 0x0A]] xhr_init scope_shown)))
       = length (messages scope_shown)"
    by (rule a [THEN conjunct2, THEN conjunct2, THEN conjunct1, THEN mp, OF h])
  have w3: "process_line json_sample (onChunk ''1'') status_m1 xhr_init scope_shown =
       Done (xhr_init\<lparr>statusUpdates := [JStr ''m1'']\<rparr>,
             scope_shown\<lparr>messages := [?tm1],
               statusUpdates_c := [\<lparr>agent = JNull, message = JStr ''hello''\<rparr>,
                                   \<lparr>agent = JUndefined, message = JStr ''m1''\<rparr>]\<rparr>)"
    using a [THEN conjunct2, THEN conjunct2, THEN conjunct2, THEN conjunct1] t1
    by (simp add: json_sample_values m p1 xhr_init_def)
  have w4: "onChunk ''1'' (JStr ''garbage'') False scope_shown =
       Done (scope_shown\<lparr>messages := [?tm2],
               statusUpdates_c := [\<lparr>agent = JNull, message = JStr ''hello''\<rparr>,
                                   \<lparr>agent = JNull, message = JStr ''garbage''\<rparr>]\<rparr>)"
    using b [THEN conjunct2, THEN conjunct1] by (simp add: m p1)
  have w5: "onChunk ''1'' (JObj [(''isStatus'', JBool True), (''message'', JStr ''hello''), (''agent'', JNull)])
        True (open_scope chat_empty) =
       Done ((open_scope chat_empty)\<lparr>messages := [placeholder_hello],
               statusUpdates_c := [\<lparr>agent = JNull, message = JStr ''hello''\<rparr>]\<rparr>)"
    using c [THEN conjunct1] by (simp add: open_scope_def chat_empty_def p0)
  have w6: "placeholders ''1'' (messages (state_of (onComplete ''2'' (JStr ''done'') scope_shown))) \<le> 1"
    by (rule a [THEN conjunct2, THEN conjunct2, THEN conjunct2, THEN conjunct2, THEN conjunct2,
          THEN conjunct2, THEN conjunct1])
  show ?thesis
    by (intro conjI) (rule h w1 w2 m(1) w3 w4 z(1) w5 w6)+
qed

section \<open>Terminal errors\<close>

text \<open>
  C4. When the request ends with a status outside 200..299, whatever the body and however
  many status updates were shown, or with a network failure, the list is the one the request
  started from without the placeholder, followed by one error message with the fixed
  apology text.
\<close>

theorem terminal_error_turn:
  assumes "\<not> (200 \<le> status \<and> status < 300)"
  shows "messages (stream_request parse cid (Respond ds (Load status)) c)
           = filter (\<lambda>m. msg_id m \<noteq> tempId cid) (messages c) @ [errorMessage cid]
       \<and> messages (stream_request parse cid (Respond ds NetError) c)
           = filter (\<lambda>m. msg_id m \<noteq> tempId cid) (messages c) @ [errorMessage cid]
       \<and> filter (\<lambda>m. msg_id m = tempId cid) (messages (stream_request parse cid (Respond ds (Load status)) c)) = []
       \<and> filter (\<lambda>m. msg_id m = tempId cid) (messages (stream_request parse cid (Respond ds NetError) c)) = []
       \<and> content (errorMessage cid)
           = JStr ''I'm sorry, there was an error processing your request. Please try again.''
       \<and> isError (errorMessage cid)"
proof -
  obtain x u where dl: "deliver parse (onChunk cid) ds xhr_init (open_scope c) = (x, u)"
    by (cases "deliver parse (onChunk cid) ds xhr_init (open_scope c)")
  have "shown_from cid (open_scope c) u"
    using deliver_shown [OF shown_from_refl, of cid "open_scope c" parse ds xhr_init] dl by simp
  then have others: "filter (\<lambda>m. msg_id m \<noteq> tempId cid) (messages u)
      = filter (\<lambda>m. msg_id m \<noteq> tempId cid) (messages c)"
    using shown_from_others by (simp add: open_scope_def)
  have a: "messages (stream_request parse cid (Respond ds (Load status)) c)
      = filter (\<lambda>m. msg_id m \<noteq> tempId cid) (messages c) @ [errorMessage cid]"
    using dl others
    by (simp add: stream_request_def fetchStreamWithErrorHandling_def onload_not_ok [OF assms]
        onError_def state_of_def)
  have b: "messages (stream_request parse cid (Respond ds NetError) c)
      = filter (\<lambda>m. msg_id m \<noteq> tempId cid) (messages c) @ [errorMessage cid]"
    using dl others
    by (simp add: stream_request_def fetchStreamWithErrorHandling_def onerror_def onError_def state_of_def)
  have e: "msg_id (errorMessage cid) \<noteq> tempId cid"
    using ids_differ by (simp add: errorMessage_def)
  show ?thesis
    using e by (simp add: a b) (simp add: errorMessage_def)
qed

theorem terminal_error_turn_witness:
  "\<not> (200 \<le> (500::nat) \<and> (500::nat) < 300)
   \<and> messages (stream_request json_sample ''1'' (Respond [status_m1 @ [CHR 0x0A], ''garbage''] (Load 500)) chat_empty)
       = [errorMessage ''1'']
   \<and> messages (stream_request json_sample ''1'' (Respond [status_m1 @ [CHR 0x0A]] NetError) chat_empty)
       = [errorMessage ''1'']"
  using terminal_error_turn [of 500 json_sample "''1''" "[status_m1 @ [CHR 0x0A], ''garbage'']" chat_empty]
    terminal_error_turn [of 500 json_sample "''1''" "[status_m1 @ [CHR 0x0A]]" chat_empty]
  by (simp add: chat_empty_def)

section \<open>The order of resolution at completion\<close>

text \<open>
  C1, as stated, fails on the code: \<open>onload\<close> tests \<open>if (finalResponse)\<close>, so a response
  envelope whose \<open>final_answer\<close> is falsy (here \<open>false\<close>) was captured and is still
  passed over; the result is then the last line parsed, the envelope itself.
\<close>

theorem finalization_priority_counterexample:
  "fetchStreamWithErrorHandling json_sample note_chunk note_result note_error
      (Respond [response_false @ [CHR 0x0A]] (Load 200)) []
     = Done [JObj [(''type'', JStr ''response''), (''final_answer'', JBool False)]]
   \<and> fetchStreamWithErrorHandling json_sample note_chunk note_result note_error
      (Respond [response_false @ [CHR 0x0A]] (Load 200)) []
     \<noteq> Done [JBool False]"
proof -
  have nl: "nonblank_lines (response_false @ [CHR 0x0A]) = [response_false]"
    by (simp add: nonblank_lines_def response_false_def trim_def is_space_def)
  have "fetchStreamWithErrorHandling json_sample note_chunk note_result note_error
      (Respond [response_false @ [CHR 0x0A]] (Load 200)) []
     = Done [JObj [(''type'', JStr ''response''), (''final_answer'', JBool False)]]"
    by (simp add: fetchStreamWithErrorHandling_def onprogress_def xhr_init_def nl Let_def
        process_line_def json_sample_values note_chunk_def note_result_def onload_def)
  then show ?thesis by simp
qed

text \<open>
  C1 (amended). On a status in 200..299 the result handed to the completion callback is, in
  this order: the captured \<open>final_answer\<close> when it is truthy; else the last non-blank line
  received, parsed as JSON, when it parses and the callback accepts it; else, when that line
  does not parse or the callback throws on it, and the status messages can be joined, an
  object whose content is the status messages joined with newlines, or \<open>Request completed\<close>
  when that join is empty; and when no non-blank line was received, an object whose content
  is \<open>Received response but couldn't parse final result\<close>.
\<close>

theorem finalization_priority:
  assumes "200 \<le> status" and "status < 300"
  shows "(truthy (finalResponse x) \<longrightarrow>
            onload parse oc oe status body x u = oc (finalResponse x) u)
       \<and> (\<not> truthy (finalResponse x) \<and> nonblank_lines (receivedData x) \<noteq> []
            \<and> parse (last (nonblank_lines (receivedData x))) = Some v \<and> oc v u = Done u' \<longrightarrow>
            onload parse oc oe status body x u = oc v u)
       \<and> (\<not> truthy (finalResponse x) \<and> nonblank_lines (receivedData x) \<noteq> []
            \<and> parse (last (nonblank_lines (receivedData x))) = Some v \<and> oc v u = Threw u'
            \<and> join_js [CHR 0x0A] (statusUpdates x) = Some joined \<longrightarrow>
            onload parse oc oe status body x u =
              oc (JObj [(''content'',
                    (if joined \<noteq> [] then JStr joined else JStr ''Request completed''))]) u')
       \<and> (\<not> truthy (finalResponse x) \<and> nonblank_lines (receivedData x) \<noteq> []
            \<and> parse (last (nonblank_lines (receivedData x))) = None
            \<and> join_js [CHR 0x0A] (statusUpdates x) = Some joined \<and> joined \<noteq> [] \<longrightarrow>
            onload parse oc oe status body x u = oc (JObj [(''content'', JStr joined)]) u)
       \<and> (\<not> truthy (finalResponse x) \<and> nonblank_lines (receivedData x) \<noteq> []
            \<and> parse (last (nonblank_lines (receivedData x))) = None
            \<and> join_js [CHR 0x0A] (statusUpdates x) = Some [] \<longrightarrow>
            onload parse oc oe status body x u =
              oc (JObj [(''content'', JStr ''Request completed'')]) u)
       \<and> (\<not> truthy (finalResponse x) \<and> nonblank_lines (receivedData x) = []
            \<and> oc (JObj [(''content'', JStr ''Received response but couldn't parse final result'')]) u = Done u' \<longrightarrow>
            onload parse oc oe status body x u =
              oc (JObj [(''content'', JStr ''Received response but couldn't parse final result'')]) u)"
  by (simp add: onload_ok [OF assms])

theorem finalization_priority_witness:
  "onload json_sample note_result note_error 200 []
      (xhr_init\<lparr>finalResponse := JObj [(''content'', JStr ''X'')]\<rparr>) []
     = Done [JObj [(''content'', JStr ''X'')]]
   \<and> onload json_sample note_result note_error 200 []
      (xhr_init\<lparr>receivedData := status_m1\<rparr>) []
     = Done [JObj [(''type'', JStr ''status''), (''message'', JStr ''m1'')]]
   \<and> onload json_sample note_result note_error 200 []
      (xhr_init\<lparr>receivedData := ''garbage'', statusUpdates := [JStr ''m1'', JStr ''garbage'']\<rparr>) []
     = Done [JObj [(''content'', JStr (''m1'' @ [CHR 0x0A] @ ''garbage''))]]
   \<and> onload json_sample note_result note_error 200 []
      (xhr_init\<lparr>receivedData := ''garbage''\<rparr>) []
     = Done [JObj [(''content'', JStr ''Request completed'')]]
   \<and> onload json_sample note_result note_error 200 [] xhr_init []
     = Done [JObj [(''content'', JStr ''Received response but couldn't parse final result'')]]
   \<and> onload json_sample (onComplete ''1'') (onError ''1'') 200 []
      (xhr_init\<lparr>receivedData := ''null'', statusUpdates := [JStr ''null'']\<rparr>) scope_shown
     = onComplete ''1'' (JObj [(''content'', JStr ''null'')]) scope_shown"
proof -
  have ok: "(200::nat) \<le> 200" "(200::nat) < 300" by simp_all
  have l1: "nonblank_lines status_m1 = [status_m1]"
    by (simp add: nonblank_lines_def status_m1_def trim_def is_space_def)
  have l2: "nonblank_lines ''garbage'' = [''garbage'']"
    by (simp add: nonblank_lines_def trim_def is_space_def)
  have l3: "nonblank_lines ''null'' = [''null'']"
    by (simp add: nonblank_lines_def trim_def is_space_def)
  have j: "join_js [CHR 0x0A] [JStr ''m1'', JStr ''garbage''] = Some (''m1'' @ [CHR 0x0A] @ ''garbage'')"
    "join_js [CHR 0x0A] [] = Some []"
    "join_js [CHR 0x0A] [JStr ''null''] = Some ''null''"
    by (simp_all add: join_js_def)
  note t = finalization_priority [OF ok, where parse = json_sample and oc = note_result
      and oe = note_error and body = "[]" and u = "[]"]
  show ?thesis
    using t [where x = "xhr_init\<lparr>finalResponse := JObj [(''content'', JStr ''X'')]\<rparr>"]
      t [where x = "xhr_init\<lparr>receivedData := status_m1\<rparr>"
          and v = "JObj [(''type'', JStr ''status''), (''message'', JStr ''m1'')]"
          and u' = "[JObj [(''type'', JStr ''status''), (''message'', JStr ''m1'')]]"]
      t [where x = "xhr_init\<lparr>receivedData := ''garbage'', statusUpdates := [JStr ''m1'', JStr ''garbage'']\<rparr>"
          and joined = "''m1'' @ [CHR 0x0A] @ ''garbage''"]
      t [where x = "xhr_init\<lparr>receivedData := ''garbage''\<rparr>" and joined = "[]"]
      t [where x = xhr_init
          and u' = "[JObj [(''content'', JStr ''Received response but couldn't parse final result'')]]"]
      finalization_priority [OF ok, where parse = json_sample and oc = "onComplete ''1''"
          and oe = "onError ''1''" and body = "[]" and u = scope_shown and u' = scope_shown
          and v = JNull and joined = "''null''"
          and x = "xhr_init\<lparr>receivedData := ''null'', statusUpdates := [JStr ''null'']\<rparr>"]
    by (simp add: xhr_init_def l1 l2 l3 nonblank_lines_Nil json_sample_values json_sample_simps
        json_sample_null note_result_def j onComplete_def)
qed

section \<open>Completion from the status transcript\<close>




section \<open>The placeholder at completion\<close>

text \<open>
  C6, as stated, fails on the code: the completion callback does not read the settings. With
  debate details switched off, the placeholder is still turned into a status-history
  message that stays in the list.
\<close>

theorem finalization_history_counterexample:
  "includeDebateDetails (settings session_answered) = False
   \<and> map msg_id (messages (provider session_answered))
       = [''welcome-0'', ''user-1'', ''status-1'', ''system-1'']
   \<and> map isStatusHistory (messages (provider session_answered)) = [False, False, True, False]
   \<and> map isTemp (messages (provider session_answered)) = [False, False, False, False]"
  by (simp add: session_answered_messages)
    (simp add: session_answered_def settle_def session_asked_eq settings_off_def welcomeMessage_def
      userMessage_def userId_def toStatusHistory_def statusId_def finalMessage_def systemId_def)

text \<open>
  C6 (amended). At completion (with a result that is not nullish) the placeholder is turned
  into a permanent status-history message, whatever the settings, unless the list already
  has the status history of this conversation, in which case the placeholder is removed; in
  both cases the final message is appended. The setting decides what the message list
  renders: with debate details off the status-history messages are left out, with them on
  every message is rendered; the final message is rendered either way.
\<close>

theorem finalization_keeps_history:
  assumes "\<not> nullish finalData"
  shows "onComplete cid finalData u =
           Done (u\<lparr>messages := finalize cid (finalMessage cid finalData) (messages u), isTyping := False\<rparr>)
       \<and> (\<not> list_ex (\<lambda>m. msg_id m = statusId cid \<and> isStatusHistory m) prev \<longrightarrow>
            finalize cid fm prev =
              map (\<lambda>m. if msg_id m = tempId cid then toStatusHistory cid m else m) prev @ [fm])
       \<and> (list_ex (\<lambda>m. msg_id m = statusId cid \<and> isStatusHistory m) prev \<longrightarrow>
            finalize cid fm prev = filter (\<lambda>m. msg_id m \<noteq> tempId cid) prev @ [fm])
       \<and> isStatusHistory (toStatusHistory cid m) \<and> \<not> isTemp (toStatusHistory cid m)
       \<and> msg_id (toStatusHistory cid m) = statusId cid
       \<and> msg_statusUpdates (toStatusHistory cid m) = msg_statusUpdates m
       \<and> provider (settle parse cid t (s\<lparr>settings := st\<rparr>)) = provider (settle parse cid t s)
       \<and> finalMessages st (ms @ [finalMessage cid finalData])
           = finalMessages st ms @ [finalMessage cid finalData]
       \<and> (includeDebateDetails st \<longrightarrow> finalMessages st ms = ms)
       \<and> (\<not> includeDebateDetails st \<longrightarrow>
            finalMessages st ms = filter (\<lambda>m. \<not> isStatusHistory m) ms)"
  using assms
  by (simp add: onComplete_def finalize_def toStatusHistory_def settle_def finalMessages_def
      finalMessage_flags)

theorem finalization_keeps_history_witness:
  "\<not> nullish (JObj [(''content'', JStr ''X'')])
   \<and> \<not> list_ex (\<lambda>m. msg_id m = statusId ''1'' \<and> isStatusHistory m) (messages scope_shown)
   \<and> finalize ''1'' (finalMessage ''1'' (JObj [(''content'', JStr ''X'')])) (messages scope_shown)
       = [toStatusHistory ''1'' placeholder_hello,
          finalMessage ''1'' (JObj [(''content'', JStr ''X'')])]
   \<and> \<not> includeDebateDetails settings_off
   \<and> finalMessages settings_off
        [toStatusHistory ''1'' placeholder_hello,
         finalMessage ''1'' (JObj [(''content'', JStr ''X'')])]
       = [finalMessage ''1'' (JObj [(''content'', JStr ''X'')])]
   \<and> includeDebateDetails (settings_off\<lparr>includeDebateDetails := True\<rparr>)
   \<and> finalMessages (settings_off\<lparr>includeDebateDetails := True\<rparr>)
        [toStatusHistory ''1'' placeholder_hello,
         finalMessage ''1'' (JObj [(''content'', JStr ''X'')])]
       = [toStatusHistory ''1'' placeholder_hello,
          finalMessage ''1'' (JObj [(''content'', JStr ''X'')])]"
proof -
  have m: "messages scope_shown = [placeholder_hello]"
    by (simp add: scope_shown_eq)
  have n: "\<not> nullish (JObj [(''content'', JStr ''X'')])" by simp
  have h: "\<not> list_ex (\<lambda>m. msg_id m = statusId ''1'' \<and> isStatusHistory m) (messages scope_shown)"
    by (simp add: m placeholder_hello_def)
  note t = finalization_keeps_history [OF n, where cid = "''1''" and prev = "messages scope_shown"
      and fm = "finalMessage ''1'' (JObj [(''content'', JStr ''X'')])"
      and ms = "[toStatusHistory ''1'' placeholder_hello,
                 finalMessage ''1'' (JObj [(''content'', JStr ''X'')])]"]
  show ?thesis
    using t [where st = settings_off] t [where st = "settings_off\<lparr>includeDebateDetails := True\<rparr>"] h
    by (simp add: m placeholder_hello_def tempId_def settings_off_def toStatusHistory_def
        finalMessage_flags)
qed

section \<open>Response envelopes\<close>

text \<open>
  C7, as stated, fails on the code: the chunk callback takes any JSON chunk with a truthy
  \<open>isStatus\<close> for a status update, so a response envelope whose \<open>final_answer\<close> carries
  one appends a status update and puts the placeholder into the list.
\<close>

theorem response_envelope_counterexample:
  "statusUpdates_c (snd (state_of (process_line json_sample (onChunk ''1'') response_flagged
       xhr_init (open_scope chat_empty))))
     = [\<lparr>agent = JUndefined, message = JStr ''hi''\<rparr>]
   \<and> messages (snd (state_of (process_line json_sample (onChunk ''1'') response_flagged
       xhr_init (open_scope chat_empty))))
     = [placeholder_hello\<lparr>content := JStr (''hi'' @ [CHR 0x0A, CHR 0x0A] @ ''*Processing...*'')\<rparr>]
   \<and> messages (open_scope chat_empty) = []"
proof -
  have t: "tempMessage ''1'' (statusUpdates_c (open_scope chat_empty) @
        [\<lparr>agent = js_prop (js_prop (JObj [(''type'', JStr ''response''),
             (''final_answer'', JObj [(''isStatus'', JBool True), (''message'', JStr ''hi'')])]) ''final_answer'') ''agent'',
          message = js_prop (js_prop (JObj [(''type'', JStr ''response''),
             (''final_answer'', JObj [(''isStatus'', JBool True), (''message'', JStr ''hi'')])]) ''final_answer'') ''message''\<rparr>])
      = Some (placeholder_hello\<lparr>content := JStr (''hi'' @ [CHR 0x0A, CHR 0x0A] @ ''*Processing...*'')\<rparr>)"
    by (simp add: open_scope_def tempMessage_def formatStatus_def join_js_def tempId_def
        placeholder_hello_def)
  show ?thesis
    using process_line_response_flagged [where parse = json_sample and line = response_flagged
        and cid = "''1''" and x = xhr_init and u = "open_scope chat_empty",
        OF json_sample_values(5) _ _ _ t]
    by (simp add: state_of_def open_scope_def chat_empty_def putTemp_def)
qed

text \<open>
  C7 (amended). For a line that parses to a value of type \<open>response\<close> whose \<open>final_answer\<close>
  is neither \<open>null\<close> nor absent: the \<open>final_answer\<close> is captured in \<open>finalResponse\<close>; when
  it has no truthy \<open>isStatus\<close>, nothing else changes (no status update, no change of the
  list); when it has one and the transcript with it can be formatted, it is shown as a
  status update.
\<close>

theorem response_envelope_captured:
  assumes "parse line = Some parsed"
    and "js_prop parsed ''type'' = JStr ''response''"
    and "\<not> nullish (js_prop parsed ''final_answer'')"
  shows "(\<not> truthy (js_prop (js_prop parsed ''final_answer'') ''isStatus'') \<longrightarrow>
            process_line parse (onChunk cid) line x u =
              Done (x\<lparr>finalResponse := js_prop parsed ''final_answer''\<rparr>, u))
       \<and> (truthy (js_prop (js_prop parsed ''final_answer'') ''isStatus'')
            \<and> tempMessage cid (statusUpdates_c u @
                 [\<lparr>agent = js_prop (js_prop parsed ''final_answer'') ''agent'',
                   message = js_prop (js_prop parsed ''final_answer'') ''message''\<rparr>]) = Some tm \<longrightarrow>
            process_line parse (onChunk cid) line x u =
              Done (x\<lparr>finalResponse := js_prop parsed ''final_answer''\<rparr>,
                    u\<lparr>messages := putTemp (tempId cid) tm (messages u),
                      statusUpdates_c := statusUpdates_c u @
                        [\<lparr>agent = js_prop (js_prop parsed ''final_answer'') ''agent'',
                          message = js_prop (js_prop parsed ''final_answer'') ''message''\<rparr>]\<rparr>))"
  using process_line_response_quiet [where parse = parse and line = line, OF assms]
    process_line_response_flagged [where parse = parse and line = line, OF assms]
  by blast

theorem response_envelope_captured_witness:
  "json_sample response_X = Some (JObj [(''type'', JStr ''response''), (''final_answer'', JObj [(''content'', JStr ''X'')])])
   \<and> process_line json_sample (onChunk ''1'') response_X xhr_init scope_shown
       = Done (xhr_init\<lparr>finalResponse := JObj [(''content'', JStr ''X'')]\<rparr>, scope_shown)
   \<and> process_line json_sample (onChunk ''1'') response_flagged xhr_init scope_shown
       = Done (xhr_init\<lparr>finalResponse := JObj [(''isStatus'', JBool True), (''message'', JStr ''hi'')]\<rparr>,
               scope_shown\<lparr>messages :=
                   [placeholder_hello\<lparr>content :=
                      JStr (''hello'' @ [CHR 0x0A, CHR 0x0A] @ ''hi'' @ [CHR 0x0A, CHR 0x0A] @ ''*Processing...*'')\<rparr>],
                 statusUpdates_c := [\<lparr>agent = JNull, message = JStr ''hello''\<rparr>,
                                     \<lparr>agent = JUndefined, message = JStr ''hi''\<rparr>]\<rparr>)"
proof -
  let ?tm = "placeholder_hello\<lparr>content :=
      JStr (''hello'' @ [CHR 0x0A, CHR 0x0A] @ ''hi'' @ [CHR 0x0A, CHR 0x0A] @ ''*Processing...*'')\<rparr>"
  have m: "messages scope_shown = [placeholder_hello]"
    "statusUpdates_c scope_shown = [\<lparr>agent = JNull, message = JStr ''hello''\<rparr>]"
    by (simp_all add: scope_shown_eq)
  have t: "tempMessage ''1'' (statusUpdates_c scope_shown @ [\<lparr>agent = JUndefined, message = JStr ''hi''\<rparr>])
      = Some ?tm"
    by (simp add: m tempMessage_def formatStatus_def join_js_def tempId_def placeholder_hello_def)
  have p: "putTemp (tempId ''1'') tm [placeholder_hello] = [tm]" for tm
    by (simp add: putTemp_def tempId_def placeholder_hello_def)
  show ?thesis
    using response_envelope_captured [where parse = json_sample and line = response_X
        and cid = "''1''" and x = xhr_init and u = scope_shown, OF json_sample_values(3)]
      response_envelope_captured [where parse = json_sample and line = response_flagged
        and cid = "''1''" and x = xhr_init and u = scope_shown and tm = ?tm,
        OF json_sample_values(5)] t
    by (simp add: json_sample_values m p)
qed

section \<open>Lines that do not parse\<close>

text \<open>
  C8, as stated, fails on the code: the inner \<open>catch\<close> calls the chunk callback with the
  raw line, and what the callback throws there leaves the body of the loop. After a status
  whose \<open>message\<close> is an object with a property \<open>toString\<close>, the callback throws on the
  line \<open>garbage\<close>: the line is pushed and not shown, and the status line that follows it
  in the same delivery is never processed.
\<close>

theorem unparsable_line_counterexample:
  "json_sample ''garbage'' = None
   \<and> deliver json_sample (onChunk ''1'') [status_bad @ [CHR 0x0A]] xhr_init (open_scope chat_empty)
       = (xhr_init\<lparr>receivedData := status_bad @ [CHR 0x0A],
                    statusUpdates := [JObj [(''toString'', JNum ''1'')], JStr status_bad]\<rparr>,
          (open_scope chat_empty)\<lparr>statusUpdates_c :=
             [\<lparr>agent = JUndefined, message = JObj [(''toString'', JNum ''1'')]\<rparr>,
              \<lparr>agent = JNull, message = JStr status_bad\<rparr>]\<rparr>)
   \<and> for_lines json_sample (onChunk ''1'') [''garbage'', status_m1]
        (xhr_init\<lparr>statusUpdates := [JObj [(''toString'', JNum ''1'')], JStr status_bad]\<rparr>)
        ((open_scope chat_empty)\<lparr>statusUpdates_c :=
             [\<lparr>agent = JUndefined, message = JObj [(''toString'', JNum ''1'')]\<rparr>,
              \<lparr>agent = JNull, message = JStr status_bad\<rparr>]\<rparr>)
       = Threw (xhr_init\<lparr>statusUpdates :=
                    [JObj [(''toString'', JNum ''1'')], JStr status_bad, JStr ''garbage'']\<rparr>,
                (open_scope chat_empty)\<lparr>statusUpdates_c :=
                   [\<lparr>agent = JUndefined, message = JObj [(''toString'', JNum ''1'')]\<rparr>,
                    \<lparr>agent = JNull, message = JStr status_bad\<rparr>,
                    \<lparr>agent = JNull, message = JStr ''garbage''\<rparr>]\<rparr>)
   \<and> statusUpdates (fst (deliver json_sample (onChunk ''1'')
        [status_bad @ [CHR 0x0A], ''garbage'' @ [CHR 0x0A] @ status_m1 @ [CHR 0x0A]]
        xhr_init (open_scope chat_empty)))
       = [JObj [(''toString'', JNum ''1'')], JStr status_bad, JStr ''garbage'']
   \<and> messages (snd (deliver json_sample (onChunk ''1'')
        [status_bad @ [CHR 0x0A], ''garbage'' @ [CHR 0x0A] @ status_m1 @ [CHR 0x0A]]
        xhr_init (open_scope chat_empty)))
       = []"
proof -
  let ?cb = "onChunk ''1''"
  let ?bad = "JObj [(''toString'', JNum ''1'')]"
  let ?d1 = "status_bad @ [CHR 0x0A]"
  let ?d2 = "''garbage'' @ [CHR 0x0A] @ status_m1 @ [CHR 0x0A]"
  let ?U1 = "(open_scope chat_empty)\<lparr>statusUpdates_c :=
      [\<lparr>agent = JUndefined, message = ?bad\<rparr>, \<lparr>agent = JNull, message = JStr status_bad\<rparr>]\<rparr>"
  let ?U2 = "(open_scope chat_empty)\<lparr>statusUpdates_c :=
      [\<lparr>agent = JUndefined, message = ?bad\<rparr>, \<lparr>agent = JNull, message = JStr status_bad\<rparr>,
       \<lparr>agent = JNull, message = JStr ''garbage''\<rparr>]\<rparr>"
  have l1: "nonblank_lines ?d1 = [status_bad]"
    and l3: "nonblank_lines (status_m1 @ [CHR 0x0A]) = [status_m1]"
    using sample_lines by (simp_all add: nonblank_lines_clean nonblank_lines_Nil)
  have g: "nonblank_lines ''garbage'' = [''garbage'']"
    by (simp add: nonblank_lines_def trim_def is_space_def)
  have l2: "nonblank_lines ?d2 = [''garbage'', status_m1]"
    using nonblank_lines_append [of "''garbage''" "status_m1 @ [CHR 0x0A]"] l3 g by simp
  have f1: "for_lines json_sample ?cb [status_bad] x (open_scope chat_empty) =
      Threw (x\<lparr>statusUpdates := statusUpdates x @ [?bad, JStr status_bad]\<rparr>, ?U1)" for x
    by (simp add: open_scope_def chat_empty_def process_line_def catch_line_def
        json_sample_values onChunk_def showStatus_def tempMessage_def formatStatus_def
        join_js_def Let_def)
  have f2: "for_lines json_sample ?cb [''garbage'', status_m1] x ?U1 =
      Threw (x\<lparr>statusUpdates := statusUpdates x @ [JStr ''garbage'']\<rparr>, ?U2)" for x
    by (simp add: open_scope_def chat_empty_def process_line_def catch_line_def
        json_sample_simps onChunk_def showStatus_def tempMessage_def formatStatus_def
        join_js_def Let_def)
  let ?X1 = "xhr_init\<lparr>statusUpdates := statusUpdates xhr_init @ [?bad, JStr status_bad]\<rparr>
      \<lparr>receivedData := receivedData xhr_init @ ?d1\<rparr>"
  let ?X2 = "?X1\<lparr>statusUpdates := statusUpdates ?X1 @ [JStr ''garbage'']\<rparr>
      \<lparr>receivedData := receivedData ?X1 @ ?d2\<rparr>"
  have op1: "onprogress json_sample ?cb (receivedData xhr_init @ ?d1) xhr_init (open_scope chat_empty)
      = (?X1, ?U1)"
    by (rule onprogress_lines_Threw) (simp only: l1 f1)
  have op2: "onprogress json_sample ?cb (receivedData ?X1 @ ?d2) ?X1 ?U1 = (?X2, ?U2)"
    by (rule onprogress_lines_Threw) (simp only: l2 f2)
  have a: "deliver json_sample ?cb [?d1] xhr_init (open_scope chat_empty) = (?X1, ?U1)"
    by (simp only: deliver.simps op1 prod.case)
  have b: "deliver json_sample ?cb [?d1, ?d2] xhr_init (open_scope chat_empty) = (?X2, ?U2)"
    by (simp only: deliver.simps op1 op2 prod.case)
  have c: "for_lines json_sample ?cb [''garbage'', status_m1]
        (xhr_init\<lparr>statusUpdates := [?bad, JStr status_bad]\<rparr>) ?U1
       = Threw (xhr_init\<lparr>statusUpdates := [?bad, JStr status_bad, JStr ''garbage'']\<rparr>, ?U2)"
    unfolding f2 by simp
  show ?thesis
    unfolding a b c by (simp add: xhr_init_def open_scope_def chat_empty_def json_sample_simps)
qed

text \<open>
  C8 (amended). A line on which \<open>JSON.parse\<close> throws is handled inside the loop body
  whenever every status update the request has accumulated so far can be printed (its agent
  and its message have a string conversion, as strings, \<open>null\<close> and \<open>undefined\<close> have):
  the body returns, with the raw line pushed onto \<open>statusUpdates\<close> and shown as a
  plain-text status update (agent \<open>null\<close>) in the placeholder, and the loop goes on with
  the remaining lines.
\<close>

theorem unparsable_line_is_plain_text:
  assumes "parse line = None"
    and "\<forall>su \<in> set (statusUpdates_c u). printable (agent su) \<and> printable (message su)"
  shows "\<exists>tm. tempMessage cid (statusUpdates_c u @ [\<lparr>agent = JNull, message = JStr line\<rparr>]) = Some tm
       \<and> process_line parse (onChunk cid) line x u =
           Done (x\<lparr>statusUpdates := statusUpdates x @ [JStr line]\<rparr>,
                 u\<lparr>messages := putTemp (tempId cid) tm (messages u),
                   statusUpdates_c := statusUpdates_c u @ [\<lparr>agent = JNull, message = JStr line\<rparr>]\<rparr>)
       \<and> for_lines parse (onChunk cid) (line # rest) x u =
           for_lines parse (onChunk cid) rest
             (x\<lparr>statusUpdates := statusUpdates x @ [JStr line]\<rparr>)
             (u\<lparr>messages := putTemp (tempId cid) tm (messages u),
               statusUpdates_c := statusUpdates_c u @ [\<lparr>agent = JNull, message = JStr line\<rparr>]\<rparr>)"
proof -
  let ?su = "\<lparr>agent = JNull, message = JStr line\<rparr>"
  have "\<forall>su \<in> set (statusUpdates_c u @ [?su]). printable (agent su) \<and> printable (message su)"
    using assms(2) by (simp add: printable_def)
  from tempMessage_printable [OF this, of cid]
  obtain tm where t: "tempMessage cid (statusUpdates_c u @ [?su]) = Some tm" ..
  note p = process_line_unparsable [where parse = parse and line = line and x = x, OF assms(1) t]
  have "for_lines parse (onChunk cid) (line # rest) x u =
           for_lines parse (onChunk cid) rest
             (x\<lparr>statusUpdates := statusUpdates x @ [JStr line]\<rparr>)
             (u\<lparr>messages := putTemp (tempId cid) tm (messages u),
               statusUpdates_c := statusUpdates_c u @ [?su]\<rparr>)"
    by (simp only: for_lines.simps p outcome.case prod.case)
  with t p show ?thesis by blast
qed

theorem unparsable_line_is_plain_text_witness:
  "json_sample ''garbage'' = None
   \<and> statusUpdates_c scope_shown = [\<lparr>agent = JNull, message = JStr ''hello''\<rparr>]
   \<and> printable JNull \<and> printable (JStr ''hello'')
   \<and> process_line json_sample (onChunk ''1'') ''garbage'' xhr_init scope_shown =
        Done (xhr_init\<lparr>statusUpdates := [JStr ''garbage'']\<rparr>,
              scope_shown\<lparr>messages :=
                  [placeholder_hello\<lparr>content :=
                     JStr (''hello'' @ [CHR 0x0A, CHR 0x0A] @ ''garbage'' @ [CHR 0x0A, CHR 0x0A] @ ''*Processing...*'')\<rparr>],
                statusUpdates_c := [\<lparr>agent = JNull, message = JStr ''hello''\<rparr>,
                                    \<lparr>agent = JNull, message = JStr ''garbage''\<rparr>]\<rparr>)
   \<and> for_lines json_sample (onChunk ''1'') [''garbage'', status_m1] xhr_init scope_shown =
        for_lines json_sample (onChunk ''1'') [status_m1] (xhr_init\<lparr>statusUpdates := [JStr ''garbage'']\<rparr>)
          (scope_shown\<lparr>messages :=
                  [placeholder_hello\<lparr>content :=
                     JStr (''hello'' @ [CHR 0x0A, CHR 0x0A] @ ''garbage'' @ [CHR 0x0A, CHR 0x0A] @ ''*Processing...*'')\<rparr>],
                statusUpdates_c := [\<lparr>agent = JNull, message = JStr ''hello''\<rparr>,
                                    \<lparr>agent = JNull, message = JStr ''garbage''\<rparr>]\<rparr>)"
proof -
  let ?tm = "placeholder_hello\<lparr>content :=
      JStr (''hello'' @ [CHR 0x0A, CHR 0x0A] @ ''garbage'' @ [CHR 0x0A, CHR 0x0A] @ ''*Processing...*'')\<rparr>"
  have m: "messages scope_shown = [placeholder_hello]"
    "statusUpdates_c scope_shown = [\<lparr>agent = JNull, message = JStr ''hello''\<rparr>]"
    by (simp_all add: scope_shown_eq)
  have i: "\<forall>su \<in> set (statusUpdates_c scope_shown). printable (agent su) \<and> printable (message su)"
    by (simp add: m printable_def)
  have t: "tempMessage ''1'' (statusUpdates_c scope_shown @ [\<lparr>agent = JNull, message = JStr ''garbage''\<rparr>])
      = Some ?tm"
    by (simp add: m tempMessage_def formatStatus_def join_js_def tempId_def placeholder_hello_def)
  have p: "putTemp (tempId ''1'') ?tm (messages scope_shown) = [?tm]"
    by (simp add: m putTemp_def tempId_def placeholder_hello_def)
  have x: "xhr_init\<lparr>statusUpdates := statusUpdates xhr_init @ [JStr ''garbage'']\<rparr>
      = xhr_init\<lparr>statusUpdates := [JStr ''garbage'']\<rparr>"
    by (simp add: xhr_init_def)
  from unparsable_line_is_plain_text [where parse = json_sample and line = "''garbage''"
        and cid = "''1''" and x = xhr_init and u = scope_shown and rest = "[status_m1]",
        OF json_sample_simps(4) i]
  obtain tm where
    "tempMessage ''1'' (statusUpdates_c scope_shown @ [\<lparr>agent = JNull, message = JStr ''garbage''\<rparr>]) = Some tm"
    and a: "process_line json_sample (onChunk ''1'') ''garbage'' xhr_init scope_shown =
           Done (xhr_init\<lparr>statusUpdates := statusUpdates xhr_init @ [JStr ''garbage'']\<rparr>,
                 scope_shown\<lparr>messages := putTemp (tempId ''1'') tm (messages scope_shown),
                   statusUpdates_c := statusUpdates_c scope_shown @ [\<lparr>agent = JNull, message = JStr ''garbage''\<rparr>]\<rparr>)"
    and b: "for_lines json_sample (onChunk ''1'') [''garbage'', status_m1] xhr_init scope_shown =
           for_lines json_sample (onChunk ''1'') [status_m1]
             (xhr_init\<lparr>statusUpdates := statusUpdates xhr_init @ [JStr ''garbage'']\<rparr>)
             (scope_shown\<lparr>messages := putTemp (tempId ''1'') tm (messages scope_shown),
               statusUpdates_c := statusUpdates_c scope_shown @ [\<lparr>agent = JNull, message = JStr ''garbage''\<rparr>]\<rparr>)"
    by blast
  with t have tm: "tm = ?tm" by simp
  have s: "statusUpdates_c scope_shown @ [\<lparr>agent = JNull, message = JStr ''garbage''\<rparr>]
      = [\<lparr>agent = JNull, message = JStr ''hello''\<rparr>, \<lparr>agent = JNull, message = JStr ''garbage''\<rparr>]"
    by (simp add: m)
  have q: "printable JNull" "printable (JStr ''hello'')"
    by (simp_all add: printable_def)
  show ?thesis
    using a b m(2) q json_sample_simps(4) unfolding tm p x s by (intro conjI)
qed

section \<open>Submission while a request is outstanding\<close>

text \<open>
  C9, as stated, fails on the code: after a message has been sent and before its request
  has ended, the text field is enabled, the send button is enabled as soon as the text is
  not blank, and \<open>handleSend\<close> sends a second request.
\<close>

theorem submission_gate_counterexample:
  "outstanding session_asked \<noteq> []
   \<and> isTyping (provider session_asked)
   \<and> \<not> send_disabled (setMessage ''more'' session_asked)
   \<and> \<not> input_disabled (setMessage ''more'' session_asked)
   \<and> map req_conversationId (outstanding (handleSend True ''2'' (setMessage ''more'' session_asked)))
       = [''1'', ''2'']"
  by (simp add: session_asked_eq setMessage_def send_disabled_def input_disabled_def handleSend_def
      sendMessage_def trim_def is_space_def Let_def)

text \<open>
  C9 (amended). The text field is never disabled and the send button is disabled exactly when
  the text is blank. In every state, whatever is outstanding, \<open>handleSend\<close> with a text that
  is not blank appends the user's message, sets \<open>isTyping\<close> and sends one more request;
  with a blank text it does nothing.
\<close>

theorem submission_gate:
  "send_disabled s = (trim (message_input s) = [])
   \<and> \<not> input_disabled s
   \<and> (trim (message_input s) \<noteq> [] \<longrightarrow>
        outstanding (handleSend True now s) =
          outstanding s @ [\<lparr>req_conversationId = now, question = message_input s,
                             opt_includeDebateDetails = includeDebateDetails (settings s),
                             opt_maxIterations = maxIterations (settings s)\<rparr>]
        \<and> messages (provider (handleSend True now s)) =
            messages (provider s) @ [userMessage now (message_input s)]
        \<and> isTyping (provider (handleSend True now s)))
   \<and> (trim (message_input s) = [] \<longrightarrow> handleSend setupOk now s = s)"
  by (simp add: send_disabled_def input_disabled_def handleSend_def sendMessage_def Let_def)

theorem submission_gate_witness:
  "trim (message_input (setMessage ''more'' session_asked)) \<noteq> []
   \<and> \<not> send_disabled (setMessage ''more'' session_asked)
   \<and> outstanding (handleSend True ''2'' (setMessage ''more'' session_asked)) =
       outstanding session_asked @ [\<lparr>req_conversationId = ''2'', question = ''more'',
                             opt_includeDebateDetails = False, opt_maxIterations = 10\<rparr>]
   \<and> trim (message_input (setMessage '' '' session_asked)) = []
   \<and> send_disabled (setMessage '' '' session_asked)
   \<and> handleSend True ''2'' (setMessage '' '' session_asked) = setMessage '' '' session_asked"
  using submission_gate [of "setMessage ''more'' session_asked" "''2'' " True]
    submission_gate [of "setMessage '' '' session_asked" "''2''" True]
  by (simp add: session_asked_eq setMessage_def trim_def is_space_def settings_off_def)

section \<open>The default content of the final message\<close>

text \<open>
  C10. When the result handed to the completion callback is not nullish and has no truthy
  \<open>content\<close>, the callback appends the final message of the conversation, and its content
  is \<open>I've processed your request.\<close> So it is at a status in 200..299 when the captured
  \<open>final_answer\<close> has no truthy \<open>content\<close>, and when nothing truthy was captured and the
  last line parses to a value, such as a status envelope, without a truthy \<open>content\<close>.
\<close>

theorem default_final_content:
  "(\<not> nullish finalData \<and> \<not> truthy (js_prop finalData ''content'') \<longrightarrow>
      onComplete cid finalData u =
        Done (u\<lparr>messages := finalize cid (finalMessage cid finalData) (messages u), isTyping := False\<rparr>)
      \<and> last (finalize cid (finalMessage cid finalData) (messages u)) = finalMessage cid finalData
      \<and> msg_id (finalMessage cid finalData) = systemId cid
      \<and> content (finalMessage cid finalData) = JStr ''I've processed your request.'')
   \<and> (200 \<le> status \<and> status < 300 \<and> truthy (finalResponse x)
        \<and> \<not> truthy (js_prop (finalResponse x) ''content'') \<longrightarrow>
      content (last (messages (state_of
        (onload parse (onComplete cid) (onError cid) status body x u))))
        = JStr ''I've processed your request.'')
   \<and> (200 \<le> status \<and> status < 300 \<and> \<not> truthy (finalResponse x)
        \<and> nonblank_lines (receivedData x) \<noteq> []
        \<and> parse (last (nonblank_lines (receivedData x))) = Some v
        \<and> \<not> nullish v \<and> \<not> truthy (js_prop v ''content'') \<longrightarrow>
      content (last (messages (state_of
        (onload parse (onComplete cid) (onError cid) status body x u))))
        = JStr ''I've processed your request.'')"
proof -
  have a: "content (last (messages (state_of (onComplete cid w u)))) = JStr ''I've processed your request.''"
    if "\<not> nullish w" "\<not> truthy (js_prop w ''content'')" for w
    using that by (simp add: onComplete_def state_of_def finalize_last finalMessage_def)
  have n: "\<not> nullish w" if "truthy w" for w
    using that by (cases w) auto
  have b: "content (last (messages (state_of
        (onload parse (onComplete cid) (onError cid) status body x u))))
        = JStr ''I've processed your request.''"
    if "200 \<le> status" "status < 300" "truthy (finalResponse x)"
      "\<not> truthy (js_prop (finalResponse x) ''content'')"
    using that a [OF n] by (simp add: onload_ok)
  have c: "content (last (messages (state_of
        (onload parse (onComplete cid) (onError cid) status body x u))))
        = JStr ''I've processed your request.''"
    if "200 \<le> status" "status < 300" "\<not> truthy (finalResponse x)"
      "nonblank_lines (receivedData x) \<noteq> []"
      "parse (last (nonblank_lines (receivedData x))) = Some v"
      "\<not> nullish v" "\<not> truthy (js_prop v ''content'')"
    using that by (simp add: onload_ok onComplete_def state_of_def finalize_last finalMessage_def)
  show ?thesis
    using b c by (simp add: onComplete_def finalize_last finalMessage_def)
qed

theorem default_final_content_witness:
  "\<not> nullish (JObj [(''type'', JStr ''status''), (''message'', JStr ''m1'')])
   \<and> \<not> truthy (js_prop (JObj [(''type'', JStr ''status''), (''message'', JStr ''m1'')]) ''content'')
   \<and> content (finalMessage ''1'' (JObj [(''type'', JStr ''status''), (''message'', JStr ''m1'')]))
       = JStr ''I've processed your request.''
   \<and> content (last (messages (state_of
        (onload json_sample (onComplete ''1'') (onError ''1'') 200 []
           (xhr_init\<lparr>finalResponse := JObj [(''answer'', JStr ''X'')]\<rparr>) scope_shown))))
       = JStr ''I've processed your request.''
   \<and> content (last (messages (state_of
        (onload json_sample (onComplete ''1'') (onError ''1'') 200 []
           (xhr_init\<lparr>receivedData := status_m1\<rparr>) scope_shown))))
       = JStr ''I've processed your request.''"
proof -
  have l: "nonblank_lines status_m1 = [status_m1]"
    by (simp add: nonblank_lines_def status_m1_def trim_def is_space_def)
  note t = default_final_content [where cid = "''1''" and u = scope_shown and parse = json_sample
      and status = 200 and body = "[]"
      and finalData = "JObj [(''type'', JStr ''status''), (''message'', JStr ''m1'')]"
      and v = "JObj [(''type'', JStr ''status''), (''message'', JStr ''m1'')]"]
  show ?thesis
    using t [where x = "xhr_init\<lparr>finalResponse := JObj [(''answer'', JStr ''X'')]\<rparr>"]
      t [where x = "xhr_init\<lparr>receivedData := status_m1\<rparr>"]
    by (simp add: xhr_init_def l json_sample_values)
qed

end
